theory Spec2Isabelle
  imports Main "HOL-Library.AList"
begin

section \<open>Python values and errors\<close>

text \<open>
  The exceptions the store can raise. Every \<open>raise ValueError(...)\<close> of \<open>base.py\<close>
  is a \<open>ValueError\<close> carrying the reason of its message; the other constructors are the
  exceptions of the interpreter and of the collaborating libraries.
\<close>

datatype reason =
    DocumentNotFound          \<comment> \<open>"Document ... not found in workspace"\<close>
  | ConnectionNotInList       \<comment> \<open>"Connection ... not found in connection list"\<close>
  | ConnectionNotInWorkspace  \<comment> \<open>"Connection ... not found in workspace"\<close>
  | InvalidPath               \<comment> \<open>"Invalid path ..."\<close>
  | CannotCompare             \<comment> \<open>"Cannot compare Connection with ..."\<close>
  | NotInList                 \<comment> \<open>\<open>list.remove(x): x not in list\<close>\<close>

datatype error =
    ValueError reason
  | TypeError
  | AttributeError
  | KeyError
  | ResourceNotFound          \<comment> \<open>the filesystem adapter: no such file or directory\<close>
  | DirectoryExpected
  | FileExpected
  | RemoveRootError
  | JSONDecodeError
  | OutsideModel              \<comment> \<open>a persistence file whose payloads are not of the saved shape\<close>


fun InvalidAddress :: "error \<Rightarrow> bool" where
  "InvalidAddress (ValueError InvalidPath) = True"
| "InvalidAddress _ = False"

subsection \<open>\<open>pathlib.Path\<close>\<close>

text \<open>
  \<open>str.split(sep)\<close> for a one-character separator: one more component than there are
  separators, empty components kept.
\<close>

fun split :: "char \<Rightarrow> string \<Rightarrow> string list" where
  "split c [] = [[]]"
| "split c (x # xs) =
     (if x = c then [] # split c xs
      else (case split c xs of [] \<Rightarrow> [[x]] | y # ys \<Rightarrow> (x # y) # ys))"

fun join :: "string \<Rightarrow> string list \<Rightarrow> string" where
  "join sep [] = []"
| "join sep [x] = x"
| "join sep (x # y # ys) = x @ sep @ join sep (y # ys)"

text \<open>
  A pure POSIX path as \<open>pathlib\<close> keeps it: the root (\<open>''''\<close>, \<open>''/''\<close>, or \<open>''//''\<close> for
  exactly two leading slashes) and the components, with empty and \<open>''.''\<close> components
  dropped. Two paths are equal when root and components are; a path never equals a string.
\<close>

datatype pypath = PurePath (root: string) (parts: "string list")

definition path_root :: "string \<Rightarrow> string" where
  "path_root s =
     (if take 3 s = ''///'' then ''/''
      else if take 2 s = ''//'' then ''//''
      else if take 1 s = ''/'' then ''/''
      else [])"

definition Path :: "string \<Rightarrow> pypath" where
  "Path s = PurePath (path_root s) (filter (\<lambda>c. c \<noteq> [] \<and> c \<noteq> ''.'') (split CHR ''/'' s))"

definition str_path :: "pypath \<Rightarrow> string" where
  "str_path p =
     (if root p = [] \<and> parts p = [] then ''.'' else root p @ join ''/'' (parts p))"

text \<open>
  The keys of graph nodes and the \<open>path\<close> of a Document: the callers pass strings,
  \<open>separate_path\<close> produces \<open>Path\<close> objects.
\<close>

datatype pykey = KStr string | KPath pypath

fun str_key :: "pykey \<Rightarrow> string" where
  "str_key (KStr s) = s"
| "str_key (KPath p) = str_path p"

section \<open>Address parsing\<close>

text \<open>\<open>Connection.separate_path\<close>\<close>

definition separate_path :: "string \<Rightarrow> error + (pykey \<times> string option)" where
  "separate_path path =
     (let comp = split CHR '':'' path in
      if length comp = 2 then Inr (KPath (Path (comp ! 0)), Some (comp ! 1))
      else if length comp = 1 then Inr (KPath (Path (comp ! 0)), None)
      else Inl (ValueError InvalidPath))"


section \<open>Documents and Connections\<close>

text \<open>
  The values a metadata mapping can hold. A dict keeps its insertion order and has string
  keys; \<open>Document\<close> and \<open>Connection\<close> objects occur as values once the decoder has rebuilt
  them. Floating-point numbers are left out.
\<close>

datatype pyval =
    PNone
  | PBool bool
  | PInt int
  | PStr string
  | PPath pypath
  | PList "pyval list"
  | PDict "(string \<times> pyval) list"
  | PDocument pyval "(string \<times> pyval) list"
  | PConnection pyval pyval "(string \<times> pyval) list"

type_synonym pydict = "(string \<times> pyval) list"

text \<open>The truth value of an object, as \<open>if metadata:\<close> takes it.\<close>

fun truthy :: "pyval \<Rightarrow> bool" where
  "truthy PNone = False"
| "truthy (PBool b) = b"
| "truthy (PInt i) = (i \<noteq> 0)"
| "truthy (PStr s) = (s \<noteq> [])"
| "truthy (PList xs) = (xs \<noteq> [])"
| "truthy (PDict d) = (d \<noteq> [])"
| "truthy _ = True"

text \<open>
  The body shared by \<open>Document.update_metadata\<close> and \<open>Connection.update_metadata\<close>:
  \<^verbatim>\<open>if metadata: for key, value in metadata.items(): self.metadata[key] = value\<close>.
  An assignment to an existing key keeps its position, a new key goes to the end. A true
  value without \<open>items\<close> raises.
\<close>

fun update_items :: "pydict \<Rightarrow> pyval \<Rightarrow> error + pydict" where
  "update_items m (PDict d) = Inr (fold (\<lambda>(key, val). AList.update key val) d m)"
| "update_items m v = (if truthy v then Inl AttributeError else Inr m)"

datatype document = Document (path: pykey) (metadata: pydict)

datatype connection = Connection (source: string) (target: string) (conn_metadata: pydict)

definition Document_update_metadata :: "document \<Rightarrow> pyval \<Rightarrow> error + document" where
  "Document_update_metadata self md =
     (case update_items (metadata self) md of
        Inl e \<Rightarrow> Inl e
      | Inr m \<Rightarrow> Inr (Document (path self) m))"

definition Connection_update_metadata :: "connection \<Rightarrow> pyval \<Rightarrow> error + connection" where
  "Connection_update_metadata self md =
     (case update_items (conn_metadata self) md of
        Inl e \<Rightarrow> Inl e
      | Inr m \<Rightarrow> Inr (Connection (source self) (target self) m))"

text \<open>
  \<open>Connection.__eq__\<close>. The right operand is another Connection or, in \<open>get_connection\<close>,
  the pair \<open>(source, target)\<close>. For a pair the method evaluates
  \<^verbatim>\<open>isinstance(other, tuple[str, str])\<close>; \<open>tuple[str, str]\<close> is a parameterized generic, for
  which \<open>isinstance\<close> raises \<open>TypeError\<close> whatever the object is (before Python 3.9 the
  subscription \<open>tuple[str, str]\<close> itself raises \<open>TypeError\<close>).
\<close>

datatype operand = OtherConnection connection | OtherTuple string string

definition isinstance_tuple_str_str :: "operand \<Rightarrow> error + bool" where
  "isinstance_tuple_str_str other = Inl TypeError"

fun Connection_eq :: "connection \<Rightarrow> operand \<Rightarrow> error + bool" where
  "Connection_eq self (OtherConnection other) =
     Inr (source self = source other \<and> target self = target other)"
| "Connection_eq self (OtherTuple a b) =
     (case isinstance_tuple_str_str (OtherTuple a b) of
        Inl e \<Rightarrow> Inl e
      | Inr True \<Rightarrow> Inr (source self = a \<and> target self = b)
      | Inr False \<Rightarrow> Inl (ValueError CannotCompare))"

section \<open>The filesystem adapter\<close>

datatype json =
    JNull
  | JBool bool
  | JInt int
  | JStr string
  | JArray "json list"
  | JObject "(string \<times> json) list"

text \<open>
  The text of a file: plain text, or the text \<open>json.dumps\<close> writes for a JSON document,
  kept as the document itself (\<open>json.loads\<close> of that text gives the document back; the
  printer and the parser are the \<open>json\<close> module's).
\<close>

datatype fbody = Text string | Json json

text \<open>
  Modelled from the spec: the Filesystem Adapter (the \<open>fs\<close> package, an external
  collaborator whose code is not part of the repository), after the contract of section 6:
  \<open>exists\<close>, \<open>isFile\<close>, \<open>isEmpty\<close>, \<open>makeDirs\<close>, \<open>create\<close>, \<open>open\<close>, \<open>remove\<close>, \<open>removeDir\<close>,
  \<open>parentOf\<close>. Paths are relative to the workspace root, which is the directory \<open>''''\<close>, and
  are taken as they are written. \<open>pathlike\<close> says whether the adapter accepts a \<open>Path\<close>
  object where it expects a string; one that does not raises \<open>TypeError\<close>.
\<close>

record filesystem =
  files :: "(string \<times> fbody) list"
  dirs :: "string list"
  pathlike :: bool

definition fs_arg :: "filesystem \<Rightarrow> pykey \<Rightarrow> error + string" where
  "fs_arg fs k =
     (case k of
        KStr s \<Rightarrow> Inr s
      | KPath p \<Rightarrow> if pathlike fs then Inr (str_path p) else Inl TypeError)"

text \<open>
  \<open>fs.path.dirname\<close>: the text before the last \<open>/\<close>. It is a function on strings, which
  raises on a \<open>Path\<close> object.
\<close>

definition parent_of :: "string \<Rightarrow> string" where
  "parent_of s = rev (drop 1 (dropWhile (\<lambda>c. c \<noteq> CHR ''/'') (rev s)))"

definition dirname :: "pykey \<Rightarrow> error + string" where
  "dirname k = (case k of KStr s \<Rightarrow> Inr (parent_of s) | KPath p \<Rightarrow> Inl TypeError)"

definition is_dir :: "filesystem \<Rightarrow> string \<Rightarrow> bool" where
  "is_dir fs p = (p = [] \<or> p \<in> set (dirs fs))"

definition is_file :: "filesystem \<Rightarrow> string \<Rightarrow> bool" where
  "is_file fs p = (map_of (files fs) p \<noteq> None)"

definition fs_exists :: "filesystem \<Rightarrow> pykey \<Rightarrow> error + bool" where
  "fs_exists fs k =
     (case fs_arg fs k of Inl e \<Rightarrow> Inl e | Inr p \<Rightarrow> Inr (is_dir fs p \<or> is_file fs p))"

definition fs_isfile :: "filesystem \<Rightarrow> pykey \<Rightarrow> error + bool" where
  "fs_isfile fs k =
     (case fs_arg fs k of Inl e \<Rightarrow> Inl e | Inr p \<Rightarrow> Inr (is_file fs p))"

definition fs_isempty :: "filesystem \<Rightarrow> pykey \<Rightarrow> error + bool" where
  "fs_isempty fs k =
     (case fs_arg fs k of
        Inl e \<Rightarrow> Inl e
      | Inr p \<Rightarrow>
          if is_file fs p then Inl DirectoryExpected
          else if \<not> is_dir fs p then Inl ResourceNotFound
          else Inr (\<forall>q \<in> set (map fst (files fs) @ dirs fs). q = [] \<or> parent_of q \<noteq> p))"

text \<open>\<open>makedirs\<close> creates the directory and every missing directory above it.\<close>

fun ancestors :: "string list \<Rightarrow> string list" where
  "ancestors [] = []"
| "ancestors (c # cs) = c # map (\<lambda>d. c @ ''/'' @ d) (ancestors cs)"

definition fs_makedirs :: "filesystem \<Rightarrow> pykey \<Rightarrow> error + filesystem" where
  "fs_makedirs fs k =
     (case fs_arg fs k of
        Inl e \<Rightarrow> Inl e
      | Inr p \<Rightarrow>
          let ds = ancestors (split CHR ''/'' p) in
          if \<exists>d \<in> set ds. is_file fs d then Inl DirectoryExpected
          else Inr (fs\<lparr>dirs := dirs fs @ filter (\<lambda>d. \<not> is_dir fs d) ds\<rparr>))"

text \<open>\<open>create\<close> makes an empty file unless something exists at the path, and says whether it did.\<close>

definition fs_create :: "filesystem \<Rightarrow> pykey \<Rightarrow> error + (bool \<times> filesystem)" where
  "fs_create fs k =
     (case fs_arg fs k of
        Inl e \<Rightarrow> Inl e
      | Inr p \<Rightarrow>
          if is_dir fs p \<or> is_file fs p then Inr (False, fs)
          else if \<not> is_dir fs (parent_of p) then Inl ResourceNotFound
          else Inr (True, fs\<lparr>files := AList.update p (Text []) (files fs)\<rparr>))"

text \<open>\<open>open(path, "r")\<close> followed by \<open>read\<close>, and \<open>open(path, "w")\<close> followed by \<open>write\<close>.\<close>

definition fs_read :: "filesystem \<Rightarrow> pykey \<Rightarrow> error + fbody" where
  "fs_read fs k =
     (case fs_arg fs k of
        Inl e \<Rightarrow> Inl e
      | Inr p \<Rightarrow>
          if is_dir fs p then Inl FileExpected
          else (case map_of (files fs) p of None \<Rightarrow> Inl ResourceNotFound | Some b \<Rightarrow> Inr b))"

definition fs_write :: "filesystem \<Rightarrow> pykey \<Rightarrow> fbody \<Rightarrow> error + filesystem" where
  "fs_write fs k b =
     (case fs_arg fs k of
        Inl e \<Rightarrow> Inl e
      | Inr p \<Rightarrow>
          if is_dir fs p then Inl FileExpected
          else if \<not> is_dir fs (parent_of p) then Inl ResourceNotFound
          else Inr (fs\<lparr>files := AList.update p b (files fs)\<rparr>))"

text \<open>\<open>touch\<close> creates the file when it is absent and leaves its text alone otherwise.\<close>

definition fs_touch :: "filesystem \<Rightarrow> pykey \<Rightarrow> error + filesystem" where
  "fs_touch fs k =
     (case fs_arg fs k of
        Inl e \<Rightarrow> Inl e
      | Inr p \<Rightarrow>
          if is_dir fs p \<or> is_file fs p then Inr fs
          else if \<not> is_dir fs (parent_of p) then Inl ResourceNotFound
          else Inr (fs\<lparr>files := AList.update p (Text []) (files fs)\<rparr>))"

definition fs_remove :: "filesystem \<Rightarrow> pykey \<Rightarrow> error + filesystem" where
  "fs_remove fs k =
     (case fs_arg fs k of
        Inl e \<Rightarrow> Inl e
      | Inr p \<Rightarrow>
          if is_dir fs p then Inl FileExpected
          else if \<not> is_file fs p then Inl ResourceNotFound
          else Inr (fs\<lparr>files := AList.delete p (files fs)\<rparr>))"

definition fs_removedir :: "filesystem \<Rightarrow> pykey \<Rightarrow> error + filesystem" where
  "fs_removedir fs k =
     (case fs_arg fs k of
        Inl e \<Rightarrow> Inl e
      | Inr p \<Rightarrow>
          if p = [] then Inl RemoveRootError
          else if \<not> is_dir fs p then Inl ResourceNotFound
          else Inr (fs\<lparr>dirs := removeAll p (dirs fs)\<rparr>))"



section \<open>The graph\<close>

text \<open>
  The undirected \<open>networkx.Graph\<close> of the store: the graph attributes (the workspace
  metadata), the nodes in insertion order, each with the Document of its \<open>document\<close>
  attribute, and the edges in insertion order, each an unordered pair of node keys with the
  list of its \<open>connlist\<close> attribute.
\<close>

record nx_graph =
  attrs :: pydict
  nodes :: "(pykey \<times> document) list"
  edges :: "((pykey \<times> pykey) \<times> connection list) list"

definition same_edge :: "pykey \<times> pykey \<Rightarrow> pykey \<times> pykey \<Rightarrow> bool" where
  "same_edge e f = (e = f \<or> (fst e = snd f \<and> snd e = fst f))"

definition has_node :: "nx_graph \<Rightarrow> pykey \<Rightarrow> bool" where
  "has_node g n = (map_of (nodes g) n \<noteq> None)"

text \<open>\<open>add_node(n, document=doc)\<close>: a new node, or a new \<open>document\<close> for the node there is.\<close>

definition add_node :: "nx_graph \<Rightarrow> pykey \<Rightarrow> document \<Rightarrow> nx_graph" where
  "add_node g n doc = g\<lparr>nodes := AList.update n doc (nodes g)\<rparr>"

fun edge_lookup ::
  "((pykey \<times> pykey) \<times> connection list) list \<Rightarrow> pykey \<times> pykey \<Rightarrow> connection list option"
where
  "edge_lookup [] e = None"
| "edge_lookup ((f, cl) # es) e = (if same_edge f e then Some cl else edge_lookup es e)"

definition has_edge :: "nx_graph \<Rightarrow> pykey \<Rightarrow> pykey \<Rightarrow> bool" where
  "has_edge g u v = (edge_lookup (edges g) (u, v) \<noteq> None)"

text \<open>The list \<open>edges[u, v]["connlist"]\<close>; a missing edge is a \<open>KeyError\<close>.\<close>

definition connlist :: "nx_graph \<Rightarrow> pykey \<Rightarrow> pykey \<Rightarrow> error + connection list" where
  "connlist g u v =
     (case edge_lookup (edges g) (u, v) of None \<Rightarrow> Inl KeyError | Some cl \<Rightarrow> Inr cl)"

text \<open>Storing a list as the \<open>connlist\<close> of the edge between \<open>u\<close> and \<open>v\<close>, new or not.\<close>

fun put_edge ::
  "((pykey \<times> pykey) \<times> connection list) list \<Rightarrow> pykey \<times> pykey \<Rightarrow> connection list \<Rightarrow>
   ((pykey \<times> pykey) \<times> connection list) list"
where
  "put_edge [] e cl = [(e, cl)]"
| "put_edge ((f, old) # es) e cl =
     (if same_edge f e then (f, cl) # es else (f, old) # put_edge es e cl)"

definition add_edge :: "nx_graph \<Rightarrow> pykey \<Rightarrow> pykey \<Rightarrow> connection list \<Rightarrow> nx_graph" where
  "add_edge g u v cl = g\<lparr>edges := put_edge (edges g) (u, v) cl\<rparr>"

definition remove_edge :: "nx_graph \<Rightarrow> pykey \<Rightarrow> pykey \<Rightarrow> nx_graph" where
  "remove_edge g u v = g\<lparr>edges := filter (\<lambda>(f, cl). \<not> same_edge f (u, v)) (edges g)\<rparr>"


text \<open>
  The edges at a node, in the order of its adjacency: the neighbour and the connlist of
  the edge. \<open>neighbors\<close> lists the first components.
\<close>

fun incident ::
  "((pykey \<times> pykey) \<times> connection list) list \<Rightarrow> pykey \<Rightarrow> (pykey \<times> connection list) list"
where
  "incident [] n = []"
| "incident (((a, b), cl) # es) n =
     (if a = n then (b, cl) # incident es n
      else if b = n then (a, cl) # incident es n
      else incident es n)"

definition neighbors :: "nx_graph \<Rightarrow> pykey \<Rightarrow> pykey list" where
  "neighbors g n = map fst (incident (edges g) n)"

section \<open>The Workspace\<close>

text \<open>
  A Workspace object has three attributes, set by its constructor: the filesystem
  \<open>workspace\<close>, the \<open>graph\<close> and the name \<open>save_file\<close>. A method that changes the store
  returns its outcome together with the store as the call leaves it, also when it raises.
  Documents and Connections are held by the graph; a method that changes one of them
  through a reference obtained from the graph changes the graph's payload.
\<close>

record Workspace =
  workspace :: filesystem
  graph :: nx_graph
  save_file :: string

definition init :: "filesystem \<Rightarrow> pydict \<Rightarrow> Workspace" where
  "init fs md =
     \<lparr>workspace = fs, graph = \<lparr>attrs = md, nodes = [], edges = []\<rparr>,
      save_file = ''workspace.json''\<rparr>"

definition update_metadata :: "Workspace \<Rightarrow> pyval \<Rightarrow> (error + unit) \<times> Workspace" where
  "update_metadata self md =
     (case update_items (attrs (graph self)) md of
        Inl e \<Rightarrow> (Inl e, self)
      | Inr m \<Rightarrow> (Inr (), self\<lparr>graph := (graph self)\<lparr>attrs := m\<rparr>\<rparr>))"

definition get_document :: "Workspace \<Rightarrow> pykey \<Rightarrow> error + document" where
  "get_document self doc_path =
     (case map_of (nodes (graph self)) doc_path of
        Some doc \<Rightarrow> Inr doc
      | None \<Rightarrow> Inl (ValueError DocumentNotFound))"

definition create_document :: "Workspace \<Rightarrow> pykey \<Rightarrow> (error + document) \<times> Workspace" where
  "create_document self doc_path =
     (let fs = workspace self;
          made =
            (case fs_isfile fs doc_path of
               Inl e \<Rightarrow> (Inl e, fs)
             | Inr True \<Rightarrow> (Inr (), fs)
             | Inr False \<Rightarrow>
                 (case dirname doc_path of
                    Inl e \<Rightarrow> (Inl e, fs)
                  | Inr d \<Rightarrow>
                      (case fs_exists fs (KStr d) of
                         Inl e \<Rightarrow> (Inl e, fs)
                       | Inr ex \<Rightarrow>
                           (case (if ex then Inr fs else fs_makedirs fs (KStr d)) of
                              Inl e \<Rightarrow> (Inl e, fs)
                            | Inr fs1 \<Rightarrow>
                                (case fs_create fs1 doc_path of
                                   Inl e \<Rightarrow> (Inl e, fs1)
                                 | Inr (created, fs2) \<Rightarrow> (Inr (), fs2))))))
      in case made of
           (Inl e, fs') \<Rightarrow> (Inl e, self\<lparr>workspace := fs'\<rparr>)
         | (Inr _, fs') \<Rightarrow>
             let doc = Document doc_path [] in
             (Inr doc, self\<lparr>workspace := fs', graph := add_node (graph self) doc_path doc\<rparr>))"

definition get_or_create_document ::
  "Workspace \<Rightarrow> pykey \<Rightarrow> (error + document) \<times> Workspace"
where
  "get_or_create_document self doc_path =
     (case map_of (nodes (graph self)) doc_path of
        Some doc \<Rightarrow> (Inr doc, self)
      | None \<Rightarrow> create_document self doc_path)"


definition write_content :: "Workspace \<Rightarrow> document \<Rightarrow> string \<Rightarrow> (error + unit) \<times> Workspace" where
  "write_content ws self content =
     (case fs_write (workspace ws) (path self) (Text content) of
        Inl e \<Rightarrow> (Inl e, ws)
      | Inr fs' \<Rightarrow> (Inr (), ws\<lparr>workspace := fs'\<rparr>))"

definition write_document :: "Workspace \<Rightarrow> pykey \<Rightarrow> string \<Rightarrow> (error + unit) \<times> Workspace" where
  "write_document self doc_path content =
     (case get_or_create_document self doc_path of
        (Inl e, s1) \<Rightarrow> (Inl e, s1)
      | (Inr doc, s1) \<Rightarrow> write_content s1 doc content)"

definition update_document :: "Workspace \<Rightarrow> pykey \<Rightarrow> pyval \<Rightarrow> (error + unit) \<times> Workspace" where
  "update_document self doc_path md =
     (case get_document self doc_path of
        Inl e \<Rightarrow> (Inl e, self)
      | Inr doc \<Rightarrow>
          (case Document_update_metadata doc md of
             Inl e \<Rightarrow> (Inl e, self)
           | Inr doc' \<Rightarrow> (Inr (), self\<lparr>graph := add_node (graph self) doc_path doc'\<rparr>)))"

text \<open>
  The two steps of \<open>create_connection\<close> that make sure a tag exists:
  \<^verbatim>\<open>if tag and tag not in doc.metadata.keys(): doc.metadata[tag] = ""\<close>, on the Document the
  node holds.
\<close>

definition ensure_tag :: "nx_graph \<Rightarrow> pykey \<Rightarrow> string option \<Rightarrow> nx_graph" where
  "ensure_tag g doc_path tag =
     (case (tag, map_of (nodes g) doc_path) of
        (Some t, Some doc) \<Rightarrow>
          if t \<noteq> [] \<and> map_of (metadata doc) t = None
          then add_node g doc_path (Document (path doc) (AList.update t (PStr []) (metadata doc)))
          else g
      | _ \<Rightarrow> g)"

definition create_connection ::
  "Workspace \<Rightarrow> string \<Rightarrow> string \<Rightarrow> (error + connection) \<times> Workspace"
where
  "create_connection self src tgt =
     (let conn = Connection src tgt [] in
      case separate_path src of
        Inl e \<Rightarrow> (Inl e, self)
      | Inr (source_doc_path, source_tag) \<Rightarrow>
      (case separate_path tgt of
        Inl e \<Rightarrow> (Inl e, self)
      | Inr (target_doc_path, target_tag) \<Rightarrow>
      (case get_or_create_document self source_doc_path of
        (Inl e, s1) \<Rightarrow> (Inl e, s1)
      | (Inr source_doc, s1) \<Rightarrow>
      (case get_or_create_document s1 target_doc_path of
        (Inl e, s2) \<Rightarrow> (Inl e, s2)
      | (Inr target_doc, s2) \<Rightarrow>
          let g1 = ensure_tag (graph s2) source_doc_path source_tag;
              g2 = ensure_tag g1 target_doc_path target_tag;
              g3 = (case edge_lookup (edges g2) (source_doc_path, target_doc_path) of
                      Some cl \<Rightarrow> add_edge g2 source_doc_path target_doc_path (cl @ [conn])
                    | None \<Rightarrow> add_edge g2 source_doc_path target_doc_path [conn])
          in (Inr conn, s2\<lparr>graph := g3\<rparr>)))))"

text \<open>The loop of \<open>get_connection\<close> over the connlist, with the \<open>raise\<close> that follows it.\<close>

fun find_connection :: "connection list \<Rightarrow> string \<Rightarrow> string \<Rightarrow> error + connection" where
  "find_connection [] src tgt = Inl (ValueError ConnectionNotInList)"
| "find_connection (conn # rest) src tgt =
     (case Connection_eq conn (OtherTuple src tgt) of
        Inl e \<Rightarrow> Inl e
      | Inr True \<Rightarrow> Inr conn
      | Inr False \<Rightarrow> find_connection rest src tgt)"

definition get_connection :: "Workspace \<Rightarrow> string \<Rightarrow> string \<Rightarrow> error + connection" where
  "get_connection self src tgt =
     (case separate_path src of
        Inl e \<Rightarrow> Inl e
      | Inr (source_doc_path, source_tag) \<Rightarrow>
      (case separate_path tgt of
        Inl e \<Rightarrow> Inl e
      | Inr (target_doc_path, target_tag) \<Rightarrow>
          (case edge_lookup (edges (graph self)) (source_doc_path, target_doc_path) of
             Some connection_list \<Rightarrow> find_connection connection_list src tgt
           | None \<Rightarrow> Inl (ValueError ConnectionNotInWorkspace))))"

text \<open>
  \<open>get_connections_with_source\<close> and \<open>get_connections_with_target\<close> test the node with
  \<^verbatim>\<open>self.graph_nodes\<close>. A Workspace has no attribute of that name (its attributes are
  \<open>workspace\<close>, \<open>graph\<close> and \<open>save_file\<close>), so the attribute access raises.
\<close>

definition graph_nodes :: "Workspace \<Rightarrow> error + pykey list" where
  "graph_nodes self = Inl AttributeError"

definition get_connections_with_source :: "Workspace \<Rightarrow> string \<Rightarrow> error + connection list" where
  "get_connections_with_source self src =
     (case separate_path src of
        Inl e \<Rightarrow> Inl e
      | Inr (source_doc_path, source_tag) \<Rightarrow>
          (case graph_nodes self of
             Inl e \<Rightarrow> Inl e
           | Inr ns \<Rightarrow>
               if source_doc_path \<in> set ns
               then Inr (concat (map (\<lambda>(target_doc_path, connection_list).
                                        filter (\<lambda>conn. source conn = src) connection_list)
                                     (incident (edges (graph self)) source_doc_path)))
               else Inl (ValueError DocumentNotFound)))"

definition get_connections_with_target :: "Workspace \<Rightarrow> string \<Rightarrow> error + connection list" where
  "get_connections_with_target self tgt =
     (case separate_path tgt of
        Inl e \<Rightarrow> Inl e
      | Inr (target_doc_path, target_tag) \<Rightarrow>
          (case graph_nodes self of
             Inl e \<Rightarrow> Inl e
           | Inr ns \<Rightarrow>
               if target_doc_path \<in> set ns
               then Inr (concat (map (\<lambda>(source_doc_path, connection_list).
                                        filter (\<lambda>conn. target conn = tgt) connection_list)
                                     (incident (edges (graph self)) target_doc_path)))
               else Inl (ValueError DocumentNotFound)))"

text \<open>
  Replacing, and removing, the first element of a list that equals a Connection:
  \<open>list.remove\<close> compares with \<open>==\<close>, here between two Connections.
\<close>

fun replace_first :: "connection list \<Rightarrow> connection \<Rightarrow> connection \<Rightarrow> connection list" where
  "replace_first [] conn new = []"
| "replace_first (c # cs) conn new =
     (if source c = source conn \<and> target c = target conn then new # cs
      else c # replace_first cs conn new)"

fun list_remove :: "connection list \<Rightarrow> connection \<Rightarrow> error + connection list" where
  "list_remove [] conn = Inl (ValueError NotInList)"
| "list_remove (c # cs) conn =
     (if source c = source conn \<and> target c = target conn then Inr cs
      else (case list_remove cs conn of Inl e \<Rightarrow> Inl e | Inr cs' \<Rightarrow> Inr (c # cs')))"

text \<open>
  The Connection \<open>get_connection\<close> returns is an element of the connlist of the edge between
  the document components of its own addresses; a change to it is a change to that element.
\<close>

definition store_connection :: "nx_graph \<Rightarrow> connection \<Rightarrow> connection \<Rightarrow> nx_graph" where
  "store_connection g conn new =
     (case (separate_path (source conn), separate_path (target conn)) of
        (Inr (u, a), Inr (v, b)) \<Rightarrow>
          (case edge_lookup (edges g) (u, v) of
             Some cl \<Rightarrow> add_edge g u v (replace_first cl conn new)
           | None \<Rightarrow> g)
      | _ \<Rightarrow> g)"

definition update_connection ::
  "Workspace \<Rightarrow> string \<Rightarrow> string \<Rightarrow> pyval \<Rightarrow> (error + unit) \<times> Workspace"
where
  "update_connection self src tgt md =
     (case get_connection self src tgt of
        Inl e \<Rightarrow> (Inl e, self)
      | Inr conn \<Rightarrow>
          (case Connection_update_metadata conn md of
             Inl e \<Rightarrow> (Inl e, self)
           | Inr conn' \<Rightarrow> (Inr (), self\<lparr>graph := store_connection (graph self) conn conn'\<rparr>)))"


definition delete_connection ::
  "Workspace \<Rightarrow> string \<Rightarrow> string \<Rightarrow> (error + connection) \<times> Workspace"
where
  "delete_connection self src tgt =
     (case separate_path src of
        Inl e \<Rightarrow> (Inl e, self)
      | Inr (source_doc_path, source_tag) \<Rightarrow>
      (case separate_path tgt of
        Inl e \<Rightarrow> (Inl e, self)
      | Inr (target_doc_path, target_tag) \<Rightarrow>
      (case get_connection self src tgt of
        Inl e \<Rightarrow> (Inl e, self)
      | Inr conn \<Rightarrow>
      (case connlist (graph self) source_doc_path target_doc_path of
        Inl e \<Rightarrow> (Inl e, self)
      | Inr connection_list \<Rightarrow>
      (case list_remove connection_list conn of
        Inl e \<Rightarrow> (Inl e, self)
      | Inr connection_list' \<Rightarrow>
          let g = add_edge (graph self) source_doc_path target_doc_path connection_list';
              g' = (if length connection_list' = 0
                    then remove_edge g source_doc_path target_doc_path else g)
          in (Inr conn, self\<lparr>graph := g'\<rparr>))))))"

section \<open>Protected metadata\<close>

text \<open>
  \<open>Document.ProtectedMetadata\<close>, the dict of a Document's metadata. \<open>parent\<close> is the
  Document that owns the dict; the methods return it as they leave it.
\<close>

fun delete_each :: "Workspace \<Rightarrow> connection list \<Rightarrow> (error + unit) \<times> Workspace" where
  "delete_each ws [] = (Inr (), ws)"
| "delete_each ws (conn # conns) =
     (case delete_connection ws (source conn) (target conn) of
        (Inl e, ws') \<Rightarrow> (Inl e, ws')
      | (Inr _, ws') \<Rightarrow> delete_each ws' conns)"

definition ProtectedMetadata_delete_connections ::
  "Workspace \<Rightarrow> document \<Rightarrow> string \<Rightarrow> (error + unit) \<times> Workspace"
where
  "ProtectedMetadata_delete_connections ws parent key =
     (let address = str_key (path parent) @ '':'' @ key in
      case get_connections_with_source ws address of
        Inl e \<Rightarrow> (Inl e, ws)
      | Inr source_conn_list \<Rightarrow>
      (case get_connections_with_target ws address of
        Inl e \<Rightarrow> (Inl e, ws)
      | Inr target_conn_list \<Rightarrow>
      (case delete_each ws source_conn_list of
        (Inl e, ws1) \<Rightarrow> (Inl e, ws1)
      | (Inr _, ws1) \<Rightarrow> delete_each ws1 target_conn_list)))"

definition ProtectedMetadata_delitem ::
  "Workspace \<Rightarrow> document \<Rightarrow> string \<Rightarrow> (error + document) \<times> Workspace"
where
  "ProtectedMetadata_delitem ws parent key =
     (case ProtectedMetadata_delete_connections ws parent key of
        (Inl e, ws') \<Rightarrow> (Inl e, ws')
      | (Inr _, ws') \<Rightarrow>
          (case map_of (metadata parent) key of
             None \<Rightarrow> (Inl KeyError, ws')
           | Some v \<Rightarrow> (Inr (Document (path parent) (AList.delete key (metadata parent))), ws')))"

definition ProtectedMetadata_pop ::
  "Workspace \<Rightarrow> document \<Rightarrow> string \<Rightarrow> pyval \<Rightarrow> (error + pyval \<times> document) \<times> Workspace"
where
  "ProtectedMetadata_pop ws parent key dflt =
     (case ProtectedMetadata_delete_connections ws parent key of
        (Inl e, ws') \<Rightarrow> (Inl e, ws')
      | (Inr _, ws') \<Rightarrow>
          (case map_of (metadata parent) key of
             None \<Rightarrow> (Inr (dflt, parent), ws')
           | Some v \<Rightarrow>
               (Inr (v, Document (path parent) (AList.delete key (metadata parent))), ws')))"

section \<open>The persistence codec\<close>

text \<open>
  \<open>json.dumps(data, cls=_WorkspaceJSONEncoder)\<close>, from a value to the JSON document it
  writes. A Document and a Connection go through \<open>_WorkspaceJSONEncoder.default\<close>, which
  hands back a dict that is encoded in turn; any other object that JSON does not know,
  such as a \<open>Path\<close>, ends in the \<open>TypeError\<close> of \<open>JSONEncoder.default\<close>.
\<close>

fun encode :: "pyval \<Rightarrow> error + json"
  and encode_list :: "pyval list \<Rightarrow> error + json list"
  and encode_items :: "(string \<times> pyval) list \<Rightarrow> error + (string \<times> json) list"
where
  "encode PNone = Inr JNull"
| "encode (PBool b) = Inr (JBool b)"
| "encode (PInt i) = Inr (JInt i)"
| "encode (PStr s) = Inr (JStr s)"
| "encode (PPath p) = Inl TypeError"
| "encode (PList xs) =
     (case encode_list xs of Inl e \<Rightarrow> Inl e | Inr js \<Rightarrow> Inr (JArray js))"
| "encode (PDict d) =
     (case encode_items d of Inl e \<Rightarrow> Inl e | Inr js \<Rightarrow> Inr (JObject js))"
| "encode (PDocument p m) =
     (case encode p of
        Inl e \<Rightarrow> Inl e
      | Inr jp \<Rightarrow>
          (case encode_items m of
             Inl e \<Rightarrow> Inl e
           | Inr jm \<Rightarrow>
               Inr (JObject [(''document.path'', jp), (''document.metadata'', JObject jm)])))"
| "encode (PConnection s t m) =
     (case encode s of
        Inl e \<Rightarrow> Inl e
      | Inr js \<Rightarrow>
          (case encode t of
             Inl e \<Rightarrow> Inl e
           | Inr jt \<Rightarrow>
               (case encode_items m of
                  Inl e \<Rightarrow> Inl e
                | Inr jm \<Rightarrow>
                    Inr (JObject [(''connection.source'', js), (''connection.target'', jt),
                                  (''connection.metadata'', JObject jm)]))))"
| "encode_list [] = Inr []"
| "encode_list (x # xs) =
     (case encode x of
        Inl e \<Rightarrow> Inl e
      | Inr j \<Rightarrow> (case encode_list xs of Inl e \<Rightarrow> Inl e | Inr js \<Rightarrow> Inr (j # js)))"
| "encode_items [] = Inr []"
| "encode_items (kv # kvs) =
     (case encode (snd kv) of
        Inl e \<Rightarrow> Inl e
      | Inr j \<Rightarrow>
          (case encode_items kvs of Inl e \<Rightarrow> Inl e | Inr js \<Rightarrow> Inr ((fst kv, j) # js)))"

text \<open>
  \<open>json_object_hook\<close>, called by \<open>json.loads\<close> on every object of the document once its
  members are decoded: an object with the keys of an encoded Document becomes a Document,
  one with the keys of an encoded Connection a Connection, any other stays a dict. The
  metadata is replayed through \<open>update_metadata\<close> on the fresh object.
\<close>

definition json_object_hook :: "pydict \<Rightarrow> error + pyval" where
  "json_object_hook dct =
     (case (map_of dct ''document.path'', map_of dct ''document.metadata'') of
        (Some p, Some md) \<Rightarrow>
          (case update_items [] md of Inl e \<Rightarrow> Inl e | Inr m \<Rightarrow> Inr (PDocument p m))
      | _ \<Rightarrow>
          (case (map_of dct ''connection.source'', map_of dct ''connection.target'',
                 map_of dct ''connection.metadata'') of
             (Some s, Some t, Some md) \<Rightarrow>
               (case update_items [] md of Inl e \<Rightarrow> Inl e | Inr m \<Rightarrow> Inr (PConnection s t m))
           | _ \<Rightarrow> Inr (PDict dct)))"

text \<open>The dict of a list of members: a repeated key keeps its first place and its last value.\<close>

definition dict_of :: "(string \<times> pyval) list \<Rightarrow> pydict" where
  "dict_of kvs = fold (\<lambda>(key, val). AList.update key val) kvs []"

fun decode :: "json \<Rightarrow> error + pyval"
  and decode_list :: "json list \<Rightarrow> error + pyval list"
  and decode_items :: "(string \<times> json) list \<Rightarrow> error + (string \<times> pyval) list"
where
  "decode JNull = Inr PNone"
| "decode (JBool b) = Inr (PBool b)"
| "decode (JInt i) = Inr (PInt i)"
| "decode (JStr s) = Inr (PStr s)"
| "decode (JArray js) =
     (case decode_list js of Inl e \<Rightarrow> Inl e | Inr xs \<Rightarrow> Inr (PList xs))"
| "decode (JObject kvs) =
     (case decode_items kvs of Inl e \<Rightarrow> Inl e | Inr d \<Rightarrow> json_object_hook (dict_of d))"
| "decode_list [] = Inr []"
| "decode_list (j # js) =
     (case decode j of
        Inl e \<Rightarrow> Inl e
      | Inr x \<Rightarrow> (case decode_list js of Inl e \<Rightarrow> Inl e | Inr xs \<Rightarrow> Inr (x # xs)))"
| "decode_items [] = Inr []"
| "decode_items (kv # kvs) =
     (case decode (snd kv) of
        Inl e \<Rightarrow> Inl e
      | Inr x \<Rightarrow>
          (case decode_items kvs of Inl e \<Rightarrow> Inl e | Inr xs \<Rightarrow> Inr ((fst kv, x) # xs)))"

text \<open>\<open>json.loads\<close> of the text of a file.\<close>

definition loads :: "fbody \<Rightarrow> error + pyval" where
  "loads b = (case b of Text s \<Rightarrow> Inl JSONDecodeError | Json j \<Rightarrow> decode j)"

subsection \<open>Node-link data\<close>

fun key_val :: "pykey \<Rightarrow> pyval" where
  "key_val (KStr s) = PStr s"
| "key_val (KPath p) = PPath p"

definition doc_val :: "document \<Rightarrow> pyval" where
  "doc_val d = PDocument (key_val (path d)) (metadata d)"

definition conn_val :: "connection \<Rightarrow> pyval" where
  "conn_val c = PConnection (PStr (source c)) (PStr (target c)) (conn_metadata c)"

text \<open>
  The edges as \<open>Graph.edges(data=True)\<close> reports them: node by node in the order of the
  nodes, the edges at the node in the order of its adjacency, an edge to a node that has
  already been visited left out.
\<close>

fun edges_from ::
  "pykey list \<Rightarrow> pykey \<Rightarrow> (pykey \<times> connection list) list \<Rightarrow>
   ((pykey \<times> pykey) \<times> connection list) list"
where
  "edges_from seen n [] = []"
| "edges_from seen n ((nbr, cl) # rest) =
     (if nbr \<in> set seen then edges_from seen n rest
      else ((n, nbr), cl) # edges_from seen n rest)"

fun edges_view ::
  "pykey list \<Rightarrow> pykey list \<Rightarrow> ((pykey \<times> pykey) \<times> connection list) list \<Rightarrow>
   ((pykey \<times> pykey) \<times> connection list) list"
where
  "edges_view seen [] es = []"
| "edges_view seen (n # ns) es =
     edges_from seen n (incident es n) @ edges_view (n # seen) ns es"

text \<open>\<open>networkx.node_link_data\<close> of the graph of the store.\<close>

definition node_link_data :: "nx_graph \<Rightarrow> pyval" where
  "node_link_data g =
     PDict [(''directed'', PBool False),
            (''multigraph'', PBool False),
            (''graph'', PDict (attrs g)),
            (''nodes'', PList (map (\<lambda>(n, doc). PDict [(''document'', doc_val doc),
                                                     (''id'', key_val n)]) (nodes g))),
            (''links'', PList (map (\<lambda>((u, v), cl). PDict [(''connlist'', PList (map conn_val cl)),
                                                         (''source'', key_val u),
                                                         (''target'', key_val v)])
                                  (edges_view [] (map fst (nodes g)) (edges g))))]"

text \<open>
  \<open>networkx.node_link_graph\<close> on data of the shape \<open>save\<close> writes: an undirected simple
  graph, a dict of graph attributes, nodes that each carry a Document with a string path
  under a string id, and links between listed nodes that each carry a list of Connections
  with string addresses. On such data the nodes and then the edges are added in their
  order. Data of another shape gives a graph whose payloads are not Documents and
  connlists, which the operations of the store are not written for: \<open>OutsideModel\<close>.
\<close>

fun as_document :: "pyval \<Rightarrow> document option" where
  "as_document (PDocument (PStr s) m) = Some (Document (KStr s) m)"
| "as_document _ = None"

fun as_connection :: "pyval \<Rightarrow> connection option" where
  "as_connection (PConnection (PStr s) (PStr t) m) = Some (Connection s t m)"
| "as_connection _ = None"

fun as_connlist :: "pyval list \<Rightarrow> connection list option" where
  "as_connlist [] = Some []"
| "as_connlist (v # vs) =
     (case (as_connection v, as_connlist vs) of
        (Some c, Some cs) \<Rightarrow> Some (c # cs)
      | _ \<Rightarrow> None)"

fun as_node :: "pyval \<Rightarrow> (pykey \<times> document) option" where
  "as_node (PDict d) =
     (case (map_of d ''id'', AList.delete ''id'' d) of
        (Some (PStr s), [(k, v)]) \<Rightarrow>
          (if k = ''document'' then map_option (Pair (KStr s)) (as_document v) else None)
      | _ \<Rightarrow> None)"
| "as_node _ = None"

fun as_link :: "pyval \<Rightarrow> ((pykey \<times> pykey) \<times> connection list) option" where
  "as_link (PDict d) =
     (case (map_of d ''source'', map_of d ''target'',
            AList.delete ''source'' (AList.delete ''target'' d)) of
        (Some (PStr u), Some (PStr v), [(k, PList cs)]) \<Rightarrow>
          (if k = ''connlist'' then map_option (Pair (KStr u, KStr v)) (as_connlist cs) else None)
      | _ \<Rightarrow> None)"
| "as_link _ = None"

fun add_nodes_from :: "nx_graph \<Rightarrow> pyval list \<Rightarrow> error + nx_graph" where
  "add_nodes_from g [] = Inr g"
| "add_nodes_from g (v # vs) =
     (case as_node v of
        None \<Rightarrow> Inl OutsideModel
      | Some (n, doc) \<Rightarrow> add_nodes_from (add_node g n doc) vs)"

fun add_edges_from :: "nx_graph \<Rightarrow> pyval list \<Rightarrow> error + nx_graph" where
  "add_edges_from g [] = Inr g"
| "add_edges_from g (v # vs) =
     (case as_link v of
        None \<Rightarrow> Inl OutsideModel
      | Some ((u, w), cl) \<Rightarrow>
          if has_node g u \<and> has_node g w then add_edges_from (add_edge g u w cl) vs
          else Inl OutsideModel)"

definition node_link_graph :: "pyval \<Rightarrow> error + nx_graph" where
  "node_link_graph data =
     (case data of
        PDict d \<Rightarrow>
          (case (map_of d ''directed'', map_of d ''multigraph'', map_of d ''graph'',
                 map_of d ''nodes'', map_of d ''links'') of
             (Some (PBool False), Some (PBool False), Some (PDict ga),
              Some (PList ns), Some (PList ls)) \<Rightarrow>
               (case add_nodes_from \<lparr>attrs = ga, nodes = [], edges = []\<rparr> ns of
                  Inl e \<Rightarrow> Inl e
                | Inr g \<Rightarrow> add_edges_from g ls)
           | _ \<Rightarrow> Inl OutsideModel)
      | _ \<Rightarrow> Inl OutsideModel)"

subsection \<open>\<open>save\<close> and \<open>load\<close>\<close>

text \<open>
  \<open>save\<close> creates the file when it is absent, opens it for writing, which empties it, and
  writes the encoded node-link data; when the encoder raises, the file stays empty. \<open>load\<close>
  reads the file and replaces the graph.
\<close>

definition save :: "Workspace \<Rightarrow> (error + unit) \<times> Workspace" where
  "save self =
     (let fs = workspace self; name = KStr (save_file self) in
      case fs_exists fs name of
        Inl e \<Rightarrow> (Inl e, self)
      | Inr ex \<Rightarrow>
      (case (if ex then Inr fs else fs_touch fs name) of
        Inl e \<Rightarrow> (Inl e, self)
      | Inr fs1 \<Rightarrow>
      (case fs_write fs1 name (Text []) of
        Inl e \<Rightarrow> (Inl e, self\<lparr>workspace := fs1\<rparr>)
      | Inr fs2 \<Rightarrow>
      (case encode (node_link_data (graph self)) of
        Inl e \<Rightarrow> (Inl e, self\<lparr>workspace := fs2\<rparr>)
      | Inr j \<Rightarrow>
      (case fs_write fs2 name (Json j) of
        Inl e \<Rightarrow> (Inl e, self\<lparr>workspace := fs2\<rparr>)
      | Inr fs3 \<Rightarrow> (Inr (), self\<lparr>workspace := fs3\<rparr>))))))"

definition load :: "Workspace \<Rightarrow> (error + unit) \<times> Workspace" where
  "load self =
     (case fs_read (workspace self) (KStr (save_file self)) of
        Inl e \<Rightarrow> (Inl e, self)
      | Inr text \<Rightarrow>
      (case loads text of
        Inl e \<Rightarrow> (Inl e, self)
      | Inr data \<Rightarrow>
      (case node_link_graph data of
        Inl e \<Rightarrow> (Inl e, self)
      | Inr g \<Rightarrow> (Inr (), self\<lparr>graph := g\<rparr>))))"

subsection \<open>Stores that the codec carries\<close>

text \<open>
  The shape test of \<open>json_object_hook\<close>: a dict with the keys of an encoded Document or of
  an encoded Connection.
\<close>

definition tagged :: "pydict \<Rightarrow> bool" where
  "tagged d =
     ((map_of d ''document.path'' \<noteq> None \<and> map_of d ''document.metadata'' \<noteq> None) \<or>
      (map_of d ''connection.source'' \<noteq> None \<and> map_of d ''connection.target'' \<noteq> None \<and>
       map_of d ''connection.metadata'' \<noteq> None))"

text \<open>
  A plain value: built from \<open>None\<close>, booleans, integers, strings, lists, dicts, Documents and
  Connections, with no \<open>Path\<close> object in it, and every dict in it, the metadata of a Document
  or Connection included, with distinct keys and not of a tagged shape.
\<close>

fun plain :: "pyval \<Rightarrow> bool"
  and plain_list :: "pyval list \<Rightarrow> bool"
  and plain_items :: "(string \<times> pyval) list \<Rightarrow> bool"
where
  "plain PNone = True"
| "plain (PBool b) = True"
| "plain (PInt i) = True"
| "plain (PStr s) = True"
| "plain (PPath p) = False"
| "plain (PList xs) = plain_list xs"
| "plain (PDict d) = (distinct (map fst d) \<and> \<not> tagged d \<and> plain_items d)"
| "plain (PDocument p m) = (plain p \<and> distinct (map fst m) \<and> \<not> tagged m \<and> plain_items m)"
| "plain (PConnection s t m) =
     (plain s \<and> plain t \<and> distinct (map fst m) \<and> \<not> tagged m \<and> plain_items m)"
| "plain_list [] = True"
| "plain_list (x # xs) = (plain x \<and> plain_list xs)"
| "plain_items [] = True"
| "plain_items (kv # kvs) = (plain (snd kv) \<and> plain_items kvs)"

fun is_str :: "pykey \<Rightarrow> bool" where
  "is_str (KStr s) = True"
| "is_str (KPath p) = False"

fun unique_edges :: "((pykey \<times> pykey) \<times> connection list) list \<Rightarrow> bool" where
  "unique_edges [] = True"
| "unique_edges ((f, cl) # es) = (edge_lookup es f = None \<and> unique_edges es)"

text \<open>
  A graph that \<open>save\<close> and \<open>load\<close> carry: the keys of the nodes, the paths of the Documents
  and the ends of the edges are strings, every metadata mapping is plain, a node occurs
  once, an edge joins two nodes and occurs once.
\<close>

definition storable :: "nx_graph \<Rightarrow> bool" where
  "storable g =
     (plain (PDict (attrs g)) \<and>
      distinct (map fst (nodes g)) \<and>
      (\<forall>(n, doc) \<in> set (nodes g).
          is_str n \<and> is_str (path doc) \<and> plain (PDict (metadata doc))) \<and>
      unique_edges (edges g) \<and>
      (\<forall>((u, v), cl) \<in> set (edges g).
          has_node g u \<and> has_node g v \<and>
          (\<forall>conn \<in> set cl. plain (PDict (conn_metadata conn)))))"

section \<open>Example stores\<close>

text \<open>
  A filesystem that accepts \<open>Path\<close> objects and already holds the files \<open>d1\<close> and \<open>d2\<close>, the
  store over it, and the stores after one and after two calls
  \<open>create_connection("d1", "d2")\<close>.
\<close>

definition fs_two :: filesystem where
  "fs_two = \<lparr>files = [(''d1'', Text []), (''d2'', Text [])], dirs = [], pathlike = True\<rparr>"

definition ws_two :: Workspace where
  "ws_two = init fs_two []"

definition ws_linked :: Workspace where
  "ws_linked = snd (create_connection ws_two ''d1'' ''d2'')"

definition ws_twice :: Workspace where
  "ws_twice = snd (create_connection ws_linked ''d1'' ''d2'')"

text \<open>
  The store after \<open>create_document("d1")\<close> and \<open>update_document("d1", {"t": "x"})\<close> on an
  empty filesystem: one Document with the tag \<open>t\<close>, no connection.
\<close>

definition fs_empty :: filesystem where
  "fs_empty = \<lparr>files = [], dirs = [], pathlike = False\<rparr>"

definition ws_tagged :: Workspace where
  "ws_tagged =
     snd (update_document (snd (create_document (init fs_empty []) (KStr ''d1'')))
            (KStr ''d1'') (PDict [(''t'', PStr ''x'')]))"

text \<open>
  The store after \<open>create_document("d1")\<close> and
  \<open>update_document("d1", {"k": {"document.path": "p", "document.metadata": {}}})\<close>: the
  value under \<open>k\<close> is a dict with the two keys of an encoded Document.
\<close>

definition ws_shape :: Workspace where
  "ws_shape =
     snd (update_document (snd (create_document (init fs_empty []) (KStr ''d1'')))
            (KStr ''d1'')
            (PDict [(''k'', PDict [(''document.path'', PStr ''p''),
                                  (''document.metadata'', PDict [])])]))"


text \<open>
  A store with string keys and an edge, as \<open>load\<close> leaves it: documents \<open>d1\<close> (with the tag
  \<open>t\<close>) and \<open>d2\<close>, and the edge between them with the connections \<open>d1:t\<close> to \<open>d2\<close> and \<open>d2\<close> to
  \<open>d1\<close>.
\<close>

definition ws_strings :: Workspace where
  "ws_strings =
     \<lparr>workspace = fs_empty,
      graph = \<lparr>attrs = [(''title'', PStr ''notes'')],
               nodes = [(KStr ''d1'', Document (KStr ''d1'') [(''t'', PStr [])]),
                        (KStr ''d2'', Document (KStr ''d2'') [])],
               edges = [((KStr ''d2'', KStr ''d1''),
                         [Connection ''d1:t'' ''d2'' [(''w'', PInt 1)],
                          Connection ''d2'' ''d1'' []])]\<rparr>,
      save_file = ''workspace.json''\<rparr>"

section \<open>Properties\<close>

lemma split_nonempty: "split c s \<noteq> []"
  by (induction s) (auto split: list.splits)

lemma length_split: "length (split c s) = Suc (count_list s c)"
  by (induction s) (auto split: list.splits simp: split_nonempty)

lemma split_no_sep: "c \<notin> set s \<Longrightarrow> split c s = [s]"
  by (induction s) auto

lemma split_one_sep:
  "c \<notin> set l \<Longrightarrow> split c (l @ c # r) = l # split c r"
  by (induction l) (auto split: list.splits simp: split_nonempty)

text \<open>
  The number of separators decides the outcome of \<open>separate_path\<close>. With no separator the
  document component is the \<open>Path\<close> object built from the whole string and there is no
  tag; with exactly one separator it is the \<open>Path\<close> object built from the left part and
  the tag is the right part; with more than one separator parsing fails with the
  invalid-address error.
\<close>

theorem separate_path_cases:
  "(CHR '':'' \<notin> set s \<longrightarrow> separate_path s = Inr (KPath (Path s), None)) \<and>
   (\<forall>l r. s = l @ '':'' @ r \<and> CHR '':'' \<notin> set l \<and> CHR '':'' \<notin> set r \<longrightarrow>
      separate_path s = Inr (KPath (Path l), Some r)) \<and>
   (1 < count_list s CHR '':'' \<longrightarrow>
      (\<exists>e. separate_path s = Inl e \<and> InvalidAddress e))"
proof (intro conjI allI impI)
  assume "CHR '':'' \<notin> set s"
  then show "separate_path s = Inr (KPath (Path s), None)"
    by (simp add: separate_path_def split_no_sep)
next
  fix l r
  assume "s = l @ '':'' @ r \<and> CHR '':'' \<notin> set l \<and> CHR '':'' \<notin> set r"
  then show "separate_path s = Inr (KPath (Path l), Some r)"
    by (simp add: separate_path_def split_one_sep split_no_sep)
next
  assume "1 < count_list s CHR '':''"
  then show "\<exists>e. separate_path s = Inl e \<and> InvalidAddress e"
    by (simp add: separate_path_def length_split Let_def)
qed

theorem separate_path_cases_witness:
  "separate_path ''a/b.md'' = Inr (KPath (Path ''a/b.md''), None) \<and>
   separate_path ''a/b.md:title'' = Inr (KPath (Path ''a/b.md''), Some ''title'') \<and>
   (\<exists>e. separate_path ''a:b:c'' = Inl e \<and> InvalidAddress e) \<and>
   str_key (KPath (Path ''a/b.md'')) = ''a/b.md''"
proof -
  have a: "CHR '':'' \<notin> set ''a/b.md''" by simp
  have b: "''a/b.md:title'' = ''a/b.md'' @ '':'' @ ''title'' \<and>
           CHR '':'' \<notin> set ''a/b.md'' \<and> CHR '':'' \<notin> set ''title''" by simp
  have c: "1 < count_list ''a:b:c'' CHR '':''" by simp
  from separate_path_cases [of "''a/b.md''"] a
  have 1: "separate_path ''a/b.md'' = Inr (KPath (Path ''a/b.md''), None)" by blast
  from separate_path_cases [of "''a/b.md:title''"] b
  have 2: "separate_path ''a/b.md:title'' = Inr (KPath (Path ''a/b.md''), Some ''title'')"
    by blast
  from separate_path_cases [of "''a:b:c''"] c
  have 3: "\<exists>e. separate_path ''a:b:c'' = Inl e \<and> InvalidAddress e" by blast
  have 4: "str_key (KPath (Path ''a/b.md'')) = ''a/b.md''"
    by (simp add: Path_def path_root_def str_path_def)
  from 1 2 3 4 show ?thesis by blast
qed

subsection \<open>Evaluating the example stores\<close>

lemmas fs_defs = fs_arg_def fs_exists_def fs_isfile_def fs_isempty_def fs_makedirs_def
  fs_create_def fs_read_def fs_write_def fs_touch_def fs_remove_def fs_removedir_def
  is_dir_def is_file_def parent_of_def dirname_def

lemmas path_defs = separate_path_def Path_def path_root_def str_path_def

lemmas store_defs = init_def get_document_def create_document_def get_or_create_document_def
  update_document_def Document_update_metadata_def ensure_tag_def create_connection_def
  add_node_def add_edge_def has_node_def has_edge_def

lemma ws_linked_eq:
  "ws_linked =
     \<lparr>workspace = fs_two,
      graph = \<lparr>attrs = [],
               nodes = [(KPath (Path ''d1''), Document (KPath (Path ''d1'')) []),
                        (KPath (Path ''d2''), Document (KPath (Path ''d2'')) [])],
               edges = [((KPath (Path ''d1''), KPath (Path ''d2'')),
                         [Connection ''d1'' ''d2'' []])]\<rparr>,
      save_file = ''workspace.json''\<rparr>"
  by (simp add: ws_linked_def ws_two_def fs_two_def store_defs fs_defs path_defs Let_def)

lemma ws_twice_eq:
  "ws_twice =
     \<lparr>workspace = fs_two,
      graph = \<lparr>attrs = [],
               nodes = [(KPath (Path ''d1''), Document (KPath (Path ''d1'')) []),
                        (KPath (Path ''d2''), Document (KPath (Path ''d2'')) [])],
               edges = [((KPath (Path ''d1''), KPath (Path ''d2'')),
                         [Connection ''d1'' ''d2'' [], Connection ''d1'' ''d2'' []])]\<rparr>,
      save_file = ''workspace.json''\<rparr>"
  by (simp add: ws_twice_def ws_linked_eq fs_two_def store_defs fs_defs path_defs Let_def
        same_edge_def)

lemma ws_tagged_eq:
  "ws_tagged =
     \<lparr>workspace = \<lparr>files = [(''d1'', Text [])], dirs = [], pathlike = False\<rparr>,
      graph = \<lparr>attrs = [],
               nodes = [(KStr ''d1'', Document (KStr ''d1'') [(''t'', PStr ''x'')])],
               edges = []\<rparr>,
      save_file = ''workspace.json''\<rparr>"
  by (simp add: ws_tagged_def fs_empty_def store_defs fs_defs Let_def)

lemma find_connection_raises: "cl \<noteq> [] \<Longrightarrow> find_connection cl s t = Inl TypeError"
  by (cases cl) (simp_all add: isinstance_tuple_str_str_def)

lemma find_connection_fails: "\<exists>e. find_connection cl s t = Inl e"
  by (cases cl) (simp_all add: isinstance_tuple_str_str_def)

lemma get_connection_fails: "\<exists>e. get_connection ws s t = Inl e"
  using find_connection_fails
  by (auto simp: get_connection_def split: sum.splits option.splits prod.splits)


lemma update_connection_fails: "\<exists>e. update_connection ws s t md = (Inl e, ws)"
proof -
  obtain e where "get_connection ws s t = Inl e" using get_connection_fails by blast
  then show ?thesis by (simp add: update_connection_def)
qed

lemma get_connections_with_source_fails: "\<exists>e. get_connections_with_source ws s = Inl e"
  by (auto simp: get_connections_with_source_def graph_nodes_def split: sum.splits prod.splits)

lemma get_connections_with_target_fails: "\<exists>e. get_connections_with_target ws s = Inl e"
  by (auto simp: get_connections_with_target_def graph_nodes_def split: sum.splits prod.splits)

lemma delete_connections_fails:
  "\<exists>e. ProtectedMetadata_delete_connections ws d k = (Inl e, ws)"
proof -
  obtain e where "get_connections_with_source ws (str_key (path d) @ '':'' @ k) = Inl e"
    using get_connections_with_source_fails by blast
  then show ?thesis by (simp add: ProtectedMetadata_delete_connections_def Let_def)
qed

text \<open>
  C3. The order-sensitive lookup of \<open>get_connection\<close> fails where the claim has it
  return. After \<open>create_connection("d1", "d2")\<close> the edge between the two documents holds
  the connection \<open>d1\<close> to \<open>d2\<close>, and \<open>get_connection("d1", "d2")\<close> raises \<open>TypeError\<close> in the
  comparison of the first element of the connlist with the pair of addresses, instead of
  returning that connection. On a store with string keys, as \<open>load\<close> builds it, the
  lookup asks for the edge between two \<open>Path\<close> objects and reports that there is none,
  although the edge between \<open>d2\<close> and \<open>d1\<close> holds the connection \<open>d2\<close> to \<open>d1\<close>.
\<close>

theorem get_connection_match_raises:
  "fst (create_connection ws_two ''d1'' ''d2'') = Inr (Connection ''d1'' ''d2'' []) \<and>
   edge_lookup (edges (graph ws_linked)) (KPath (Path ''d1''), KPath (Path ''d2'')) =
     Some [Connection ''d1'' ''d2'' []] \<and>
   get_connection ws_linked ''d1'' ''d2'' = Inl TypeError \<and>
   edge_lookup (edges (graph ws_strings)) (KStr ''d2'', KStr ''d1'') =
     Some [Connection ''d1:t'' ''d2'' [(''w'', PInt 1)], Connection ''d2'' ''d1'' []] \<and>
   get_connection ws_strings ''d2'' ''d1'' = Inl (ValueError ConnectionNotInWorkspace)"
proof (intro conjI)
  show "fst (create_connection ws_two ''d1'' ''d2'') = Inr (Connection ''d1'' ''d2'' [])"
    by (simp add: ws_two_def fs_two_def store_defs fs_defs path_defs Let_def)
  show "edge_lookup (edges (graph ws_linked)) (KPath (Path ''d1''), KPath (Path ''d2'')) =
     Some [Connection ''d1'' ''d2'' []]"
    by (simp add: ws_linked_eq same_edge_def)
  show "get_connection ws_linked ''d1'' ''d2'' = Inl TypeError"
    by (simp add: ws_linked_eq get_connection_def separate_path_def same_edge_def
          isinstance_tuple_str_str_def)
  show "edge_lookup (edges (graph ws_strings)) (KStr ''d2'', KStr ''d1'') =
     Some [Connection ''d1:t'' ''d2'' [(''w'', PInt 1)], Connection ''d2'' ''d1'' []]"
    by (simp add: ws_strings_def same_edge_def)
  show "get_connection ws_strings ''d2'' ''d1'' = Inl (ValueError ConnectionNotInWorkspace)"
    by (simp add: ws_strings_def get_connection_def separate_path_def same_edge_def)
qed

text \<open>
  C9. With two equal connections \<open>d1\<close> to \<open>d2\<close> on one edge, \<open>get_connection\<close>,
  \<open>update_connection\<close> and \<open>delete_connection\<close> do not reach the first duplicate: each
  raises \<open>TypeError\<close> and leaves the store as it was.
\<close>

theorem duplicates_first_match_raises:
  "edge_lookup (edges (graph ws_twice)) (KPath (Path ''d1''), KPath (Path ''d2'')) =
     Some [Connection ''d1'' ''d2'' [], Connection ''d1'' ''d2'' []] \<and>
   get_connection ws_twice ''d1'' ''d2'' = Inl TypeError \<and>
   update_connection ws_twice ''d1'' ''d2'' (PDict [(''k'', PInt 1)]) = (Inl TypeError, ws_twice) \<and>
   delete_connection ws_twice ''d1'' ''d2'' = (Inl TypeError, ws_twice)"
proof -
  have g: "get_connection ws_twice ''d1'' ''d2'' = Inl TypeError"
    by (simp add: ws_twice_eq get_connection_def separate_path_def same_edge_def
          isinstance_tuple_str_str_def)
  have e: "edge_lookup (edges (graph ws_twice)) (KPath (Path ''d1''), KPath (Path ''d2'')) =
     Some [Connection ''d1'' ''d2'' [], Connection ''d1'' ''d2'' []]"
    by (simp add: ws_twice_eq same_edge_def)
  have u: "update_connection ws_twice ''d1'' ''d2'' (PDict [(''k'', PInt 1)]) = (Inl TypeError, ws_twice)"
    by (simp add: update_connection_def g)
  have d: "delete_connection ws_twice ''d1'' ''d2'' = (Inl TypeError, ws_twice)"
    by (simp add: delete_connection_def g separate_path_def)
  from g e u d show ?thesis by blast
qed

text \<open>
  C5. Deleting the only connection of an edge does not remove the edge: after
  \<open>create_connection("d1", "d2")\<close>, \<open>delete_connection("d1", "d2")\<close> raises \<open>TypeError\<close> and
  the store keeps the edge with its connlist of one connection.
\<close>

theorem edge_survives_delete_connection:
  "has_edge (graph ws_linked) (KPath (Path ''d1'')) (KPath (Path ''d2'')) \<and>
   connlist (graph ws_linked) (KPath (Path ''d1'')) (KPath (Path ''d2'')) =
     Inr [Connection ''d1'' ''d2'' []] \<and>
   delete_connection ws_linked ''d1'' ''d2'' = (Inl TypeError, ws_linked)"
proof -
  have g: "get_connection ws_linked ''d1'' ''d2'' = Inl TypeError"
    by (simp add: ws_linked_eq get_connection_def separate_path_def same_edge_def
          isinstance_tuple_str_str_def)
  have d: "delete_connection ws_linked ''d1'' ''d2'' = (Inl TypeError, ws_linked)"
    by (simp add: delete_connection_def g separate_path_def)
  have h: "has_edge (graph ws_linked) (KPath (Path ''d1'')) (KPath (Path ''d2''))"
    by (simp add: ws_linked_eq has_edge_def same_edge_def)
  have c: "connlist (graph ws_linked) (KPath (Path ''d1'')) (KPath (Path ''d2'')) =
     Inr [Connection ''d1'' ''d2'' []]"
    by (simp add: ws_linked_eq connlist_def same_edge_def)
  from d h c show ?thesis by blast
qed

text \<open>
  C4. \<open>get_connections_with_source\<close> and \<open>get_connections_with_target\<close> raise
  \<open>AttributeError\<close> for an address whose document is a node of the graph, instead of
  returning the connections with that source or target.
\<close>

theorem connections_with_source_raises:
  "has_node (graph ws_linked) (KPath (Path ''d1'')) \<and>
   has_node (graph ws_linked) (KPath (Path ''d2'')) \<and>
   get_connections_with_source ws_linked ''d1'' = Inl AttributeError \<and>
   get_connections_with_target ws_linked ''d2'' = Inl AttributeError"
  by (simp add: ws_linked_eq has_node_def get_connections_with_source_def
        get_connections_with_target_def graph_nodes_def separate_path_def)

text \<open>
  C2. Deleting or popping a metadata key that no connection refers to is not a plain
  removal: on the store with the single document \<open>d1\<close>, tag \<open>t\<close>, and no edge, both
  \<open>del metadata["t"]\<close> and \<open>metadata.pop("t")\<close> raise \<open>AttributeError\<close> and the key stays.
\<close>

theorem delete_tag_without_connection_raises:
  "get_document ws_tagged (KStr ''d1'') = Inr (Document (KStr ''d1'') [(''t'', PStr ''x'')]) \<and>
   edges (graph ws_tagged) = [] \<and>
   ProtectedMetadata_delitem ws_tagged (Document (KStr ''d1'') [(''t'', PStr ''x'')]) ''t'' =
     (Inl AttributeError, ws_tagged) \<and>
   ProtectedMetadata_pop ws_tagged (Document (KStr ''d1'') [(''t'', PStr ''x'')]) ''t'' PNone =
     (Inl AttributeError, ws_tagged)"
proof -
  have s: "get_connections_with_source ws_tagged ''d1:t'' = Inl AttributeError"
    by (simp add: get_connections_with_source_def graph_nodes_def separate_path_def)
  have c: "ProtectedMetadata_delete_connections ws_tagged
             (Document (KStr ''d1'') [(''t'', PStr ''x'')]) ''t'' = (Inl AttributeError, ws_tagged)"
    using s by (simp add: ProtectedMetadata_delete_connections_def)
  show ?thesis
    using c by (simp add: ProtectedMetadata_delitem_def ProtectedMetadata_pop_def)
       (simp add: ws_tagged_eq get_document_def)
qed

subsection \<open>The document component of an address\<close>

text \<open>
  C6. The document component that \<open>separate_path\<close> returns is not the string the address
  holds: it is a \<open>Path\<close> object, which equals no string and whose text is normalised. For
  \<open>./a\<close> the component reads \<open>a\<close>; for \<open>a/b.md\<close> and for \<open>d1:t\<close> it is a path object and
  not the string \<open>a/b.md\<close> or \<open>d1\<close>. So the document \<open>d1\<close> that \<open>create_document("d1")\<close> has
  put under the string key is not found under the component parsed from \<open>d1\<close>. The tag
  and the failure on a second separator are as the address says.
\<close>

theorem separate_path_returns_path_object:
  "separate_path ''./a'' = Inr (KPath (PurePath [] [''a'']), None) \<and>
   str_key (KPath (PurePath [] [''a''])) = ''a'' \<and>
   separate_path ''a/b.md'' = Inr (KPath (PurePath [] [''a'', ''b.md'']), None) \<and>
   separate_path ''a/b.md'' \<noteq> Inr (KStr ''a/b.md'', None) \<and>
   separate_path ''d1:t'' = Inr (KPath (PurePath [] [''d1'']), Some ''t'') \<and>
   separate_path ''d1:t'' \<noteq> Inr (KStr ''d1'', Some ''t'') \<and>
   separate_path ''a:b:c'' = Inl (ValueError InvalidPath) \<and>
   get_document ws_tagged (KStr ''d1'') = Inr (Document (KStr ''d1'') [(''t'', PStr ''x'')]) \<and>
   get_document ws_tagged (KPath (PurePath [] [''d1''])) = Inl (ValueError DocumentNotFound)"
  by (simp add: path_defs ws_tagged_eq get_document_def)

lemma map_of_update_files:
  "map_of fs f = Some b \<Longrightarrow> map_of fs p = None \<Longrightarrow> map_of (AList.update p c fs) f = Some b"
  by (auto simp: update_conv')

lemma fs_makedirs_files: "fs_makedirs fs k = Inr fs' \<Longrightarrow> files fs' = files fs"
  by (auto simp: fs_makedirs_def Let_def split: sum.splits if_splits)

lemma fs_create_files:
  "fs_create fs k = Inr (c, fs') \<Longrightarrow> map_of (files fs) f = Some b \<Longrightarrow>
   map_of (files fs') f = Some b"
  by (auto simp: fs_create_def is_file_def update_conv' split: sum.splits if_splits)



lemma create_document_Inr:
  assumes c: "create_document ws p = (Inr doc, ws')"
  shows "doc = Document p [] \<and> graph ws' = add_node (graph ws) p (Document p []) \<and>
         (\<forall>f b. map_of (files (workspace ws)) f = Some b \<longrightarrow>
                map_of (files (workspace ws')) f = Some b)"
proof (cases "fs_isfile (workspace ws) p")
  case (Inl e)
  with c show ?thesis by (simp add: create_document_def Let_def)
next
  case (Inr isf)
  show ?thesis
  proof (cases isf)
    case True
    with Inr c show ?thesis by (auto simp: create_document_def Let_def)
  next
    case False
    note isf = Inr False
    show ?thesis
    proof (cases "dirname p")
      case (Inl e)
      with isf c show ?thesis by (simp add: create_document_def Let_def)
    next
      case d: (Inr d)
      show ?thesis
      proof (cases "fs_exists (workspace ws) (KStr d)")
        case (Inl e)
        with isf d c show ?thesis by (simp add: create_document_def Let_def)
      next
        case ex: (Inr ex)
        show ?thesis
        proof (cases "if ex then Inr (workspace ws) else fs_makedirs (workspace ws) (KStr d)")
          case (Inl e)
          with isf d ex c show ?thesis by (simp add: create_document_def Let_def)
        next
          case fs1: (Inr fs1)
          then have f1: "files fs1 = files (workspace ws)"
            by (auto split: if_splits dest: fs_makedirs_files)
          show ?thesis
          proof (cases "fs_create fs1 p")
            case (Inl e)
            with isf d ex fs1 c show ?thesis by (simp add: create_document_def Let_def)
          next
            case (Inr r)
            obtain cr fs2 where r: "r = (cr, fs2)" by (cases r)
            from isf d ex fs1 Inr r c
            have "doc = Document p []" "ws' = ws\<lparr>workspace := fs2,
                    graph := add_node (graph ws) p (Document p [])\<rparr>"
              by (auto simp add: create_document_def Let_def)
            moreover have "\<forall>f b. map_of (files fs1) f = Some b \<longrightarrow> map_of (files fs2) f = Some b"
              using Inr r fs_create_files by blast
            ultimately show ?thesis using f1 by simp
          qed
        qed
      qed
    qed
  qed
qed

text \<open>
  C8. \<open>create_document\<close> on a path that is already a node. When the backing file exists
  the call returns a fresh Document with empty metadata, puts it in the place of the node's
  Document and changes nothing else, the filesystem included. Whenever the call returns,
  the node holds the fresh empty Document, every other node, the order of the nodes, the
  edges and the workspace metadata are unchanged, and every file keeps its content.
\<close>

theorem create_document_again:
  "has_node (graph ws) p \<longrightarrow>
     (fs_isfile (workspace ws) p = Inr True \<longrightarrow>
        create_document ws p =
          (Inr (Document p []),
           ws\<lparr>graph := (graph ws)\<lparr>nodes := AList.update p (Document p []) (nodes (graph ws))\<rparr>\<rparr>)) \<and>
     (\<forall>doc ws'. create_document ws p = (Inr doc, ws') \<longrightarrow>
        doc = Document p [] \<and>
        map_of (nodes (graph ws')) p = Some (Document p []) \<and>
        (\<forall>q. q \<noteq> p \<longrightarrow> map_of (nodes (graph ws')) q = map_of (nodes (graph ws)) q) \<and>
        map fst (nodes (graph ws')) = map fst (nodes (graph ws)) \<and>
        edges (graph ws') = edges (graph ws) \<and>
        attrs (graph ws') = attrs (graph ws) \<and>
        (\<forall>f b. map_of (files (workspace ws)) f = Some b \<longrightarrow>
               map_of (files (workspace ws')) f = Some b))"
proof (intro impI conjI allI)
  assume "has_node (graph ws) p" "fs_isfile (workspace ws) p = Inr True"
  then show "create_document ws p =
          (Inr (Document p []),
           ws\<lparr>graph := (graph ws)\<lparr>nodes := AList.update p (Document p []) (nodes (graph ws))\<rparr>\<rparr>)"
    by (simp add: create_document_def Let_def add_node_def)
next
  fix doc ws'
  assume n: "has_node (graph ws) p" and c: "create_document ws p = (Inr doc, ws')"
  from create_document_Inr [OF c] have
    d: "doc = Document p []" and g: "graph ws' = add_node (graph ws) p (Document p [])" and
    f: "\<forall>f b. map_of (files (workspace ws)) f = Some b \<longrightarrow>
               map_of (files (workspace ws')) f = Some b"
    by blast+
  show "doc = Document p []" by (rule d)
  show "map_of (nodes (graph ws')) p = Some (Document p [])"
    by (simp add: g add_node_def update_conv')
  show "edges (graph ws') = edges (graph ws)" by (simp add: g add_node_def)
  show "attrs (graph ws') = attrs (graph ws)" by (simp add: g add_node_def)
  show "map fst (nodes (graph ws')) = map fst (nodes (graph ws))"
    using n by (auto simp: g add_node_def update_keys has_node_def map_of_eq_None_iff)
  { fix q assume "q \<noteq> p"
    then show "map_of (nodes (graph ws')) q = map_of (nodes (graph ws)) q"
      by (simp add: g add_node_def update_conv') }
  { fix f b assume "map_of (files (workspace ws)) f = Some b"
    then show "map_of (files (workspace ws')) f = Some b" using f by simp }
qed

theorem create_document_again_witness:
  "get_document ws_tagged (KStr ''d1'') = Inr (Document (KStr ''d1'') [(''t'', PStr ''x'')]) \<and>
   create_document ws_tagged (KStr ''d1'') =
     (Inr (Document (KStr ''d1'') []),
      ws_tagged\<lparr>graph := (graph ws_tagged)\<lparr>nodes :=
        AList.update (KStr ''d1'') (Document (KStr ''d1'') []) (nodes (graph ws_tagged))\<rparr>\<rparr>) \<and>
   get_document (snd (create_document ws_tagged (KStr ''d1''))) (KStr ''d1'') =
     Inr (Document (KStr ''d1'') []) \<and>
   edges (graph (snd (create_document ws_tagged (KStr ''d1'')))) = edges (graph ws_tagged)"
proof -
  have n: "has_node (graph ws_tagged) (KStr ''d1'')"
    by (simp add: ws_tagged_eq has_node_def)
  have f: "fs_isfile (workspace ws_tagged) (KStr ''d1'') = Inr True"
    by (simp add: ws_tagged_eq fs_defs)
  have g: "get_document ws_tagged (KStr ''d1'') = Inr (Document (KStr ''d1'') [(''t'', PStr ''x'')])"
    by (simp add: ws_tagged_eq get_document_def)
  from create_document_again [of ws_tagged "KStr ''d1''"] n f
  have c: "create_document ws_tagged (KStr ''d1'') =
     (Inr (Document (KStr ''d1'') []),
      ws_tagged\<lparr>graph := (graph ws_tagged)\<lparr>nodes :=
        AList.update (KStr ''d1'') (Document (KStr ''d1'') []) (nodes (graph ws_tagged))\<rparr>\<rparr>)"
    by blast
  from create_document_again [of ws_tagged "KStr ''d1''"] n c
  have "map_of (nodes (graph (snd (create_document ws_tagged (KStr ''d1''))))) (KStr ''d1'') =
          Some (Document (KStr ''d1'') []) \<and>
        edges (graph (snd (create_document ws_tagged (KStr ''d1'')))) = edges (graph ws_tagged)"
    by (metis snd_conv)
  then show ?thesis using g c by (simp add: get_document_def)
qed

subsection \<open>Encoding and decoding\<close>

lemma update_fresh: "k \<notin> fst ` set al \<Longrightarrow> AList.update k v al = al @ [(k, v)]"
  by (induction al) auto

lemma fold_update_append:
  "distinct (map fst xs) \<Longrightarrow> fst ` set xs \<inter> fst ` set acc = {} \<Longrightarrow>
   fold (\<lambda>(key, val). AList.update key val) xs acc = acc @ xs"
proof (induction xs arbitrary: acc)
  case Nil
  then show ?case by simp
next
  case (Cons x xs)
  obtain k v where x: "x = (k, v)" by (cases x)
  from Cons.prems have fresh: "k \<notin> fst ` set acc" by (auto simp: x)
  have "fold (\<lambda>(key, val). AList.update key val) xs (acc @ [(k, v)]) = (acc @ [(k, v)]) @ xs"
    using Cons.prems by (intro Cons.IH) (auto simp: x)
  then show ?case by (simp add: x update_fresh [OF fresh])
qed


lemma fold_update_fresh:
  "distinct (map fst m) \<Longrightarrow> fold (\<lambda>(key, val). AList.update key val) m [] = m"
  using fold_update_append [of m "[]"] by simp

lemma dict_of_distinct: "distinct (map fst d) \<Longrightarrow> dict_of d = d"
  by (simp add: dict_of_def fold_update_fresh)

lemma hook_untagged: "\<not> tagged d \<Longrightarrow> json_object_hook d = Inr (PDict d)"
  by (auto simp: tagged_def json_object_hook_def split: option.splits)

lemma roundtrip_value:
  "plain v \<Longrightarrow> \<exists>j. encode v = Inr j \<and> decode j = Inr v"
  "plain_list xs \<Longrightarrow> \<exists>js. encode_list xs = Inr js \<and> decode_list js = Inr xs"
  "plain_items d \<Longrightarrow> \<exists>js. encode_items d = Inr js \<and> decode_items js = Inr d"
proof (induction v and xs and d rule: encode_encode_list_encode_items.induct)
  case (7 d)
  then obtain js where "encode_items d = Inr js" "decode_items js = Inr d" by auto
  with 7 show ?case by (simp add: dict_of_distinct hook_untagged)
next
  case (8 p m)
  then obtain jp where jp: "encode p = Inr jp" "decode jp = Inr p" by auto
  from 8 jp obtain jm where jm: "encode_items m = Inr jm" "decode_items jm = Inr m" by auto
  from 8 have m: "distinct (map fst m)" "\<not> tagged m" by auto
  show ?case
    by (simp add: jp jm dict_of_distinct m hook_untagged)
       (simp add: dict_of_def json_object_hook_def fold_update_fresh m)
next
  case (9 s t m)
  then obtain js where js: "encode s = Inr js" "decode js = Inr s" by auto
  from 9 js obtain jt where jt: "encode t = Inr jt" "decode jt = Inr t" by auto
  from 9 js jt obtain jm where jm: "encode_items m = Inr jm" "decode_items jm = Inr m" by auto
  from 9 have m: "distinct (map fst m)" "\<not> tagged m" by auto
  show ?case
    by (simp add: js jt jm dict_of_distinct m hook_untagged)
       (simp add: dict_of_def json_object_hook_def fold_update_fresh m)
next
  case (11 x xs)
  then obtain j where j: "encode x = Inr j" "decode j = Inr x" by auto
  from 11 j obtain js where "encode_list xs = Inr js" "decode_list js = Inr xs" by auto
  with j show ?case by simp
next
  case (13 kv kvs)
  then obtain j where j: "encode (snd kv) = Inr j" "decode j = Inr (snd kv)" by auto
  from 13 j obtain js where "encode_items kvs = Inr js" "decode_items js = Inr kvs" by auto
  with j show ?case by simp
qed auto

subsection \<open>Edges and their enumeration\<close>

lemma same_edge_refl: "same_edge e e"
  by (simp add: same_edge_def)

lemma same_edge_sym: "same_edge e f \<Longrightarrow> same_edge f e"
  by (auto simp: same_edge_def)

lemma same_edge_trans: "same_edge e f \<Longrightarrow> same_edge f g \<Longrightarrow> same_edge e g"
  by (auto simp: same_edge_def prod_eq_iff)

lemma same_edge_left: "same_edge e f \<Longrightarrow> same_edge e g = same_edge f g"
  by (meson same_edge_sym same_edge_trans)

lemma edge_lookup_Some:
  "edge_lookup es e = Some cl \<Longrightarrow> \<exists>f. (f, cl) \<in> set es \<and> same_edge f e"
  by (induction es e rule: edge_lookup.induct) (auto split: if_splits)

lemma edge_lookup_None:
  "edge_lookup es e = None \<longleftrightarrow> (\<forall>(f, cl) \<in> set es. \<not> same_edge f e)"
  by (induction es e rule: edge_lookup.induct) auto

lemma edge_lookup_unique:
  "unique_edges es \<Longrightarrow> (f, cl) \<in> set es \<Longrightarrow> same_edge f e \<Longrightarrow> edge_lookup es e = Some cl"
proof (induction es)
  case Nil
  then show ?case by simp
next
  case (Cons x es)
  obtain f0 cl0 where x: "x = (f0, cl0)" by (cases x)
  from Cons.prems(1) have u: "edge_lookup es f0 = None" "unique_edges es" by (simp_all add: x)
  show ?case
  proof (cases "(f, cl) = (f0, cl0)")
    case True
    with Cons.prems(3) show ?thesis by (simp add: x)
  next
    case False
    with Cons.prems(2) have mem: "(f, cl) \<in> set es" by (auto simp: x)
    have "\<not> same_edge f0 e"
    proof
      assume "same_edge f0 e"
      with Cons.prems(3) have "same_edge f f0"
        by (meson same_edge_sym same_edge_trans)
      with mem u(1) show False by (auto simp: edge_lookup_None)
    qed
    with Cons.IH [OF u(2) mem Cons.prems(3)] show ?thesis by (simp add: x)
  qed
qed

lemma edge_lookup_append:
  "edge_lookup (xs @ ys) e =
     (case edge_lookup xs e of Some cl \<Rightarrow> Some cl | None \<Rightarrow> edge_lookup ys e)"
  by (induction xs e rule: edge_lookup.induct) auto

lemma put_edge_lookup:
  "edge_lookup (put_edge es f cl) e = (if same_edge f e then Some cl else edge_lookup es e)"
proof (induction es f cl rule: put_edge.induct)
  case (1 e' cl)
  then show ?case by simp
next
  case (2 f0 old es f cl)
  show ?case
  proof (cases "same_edge f0 f")
    case True
    then have "same_edge f0 e = same_edge f e" by (rule same_edge_left)
    with True show ?thesis by simp
  next
    case False
    have "\<not> (same_edge f0 e \<and> same_edge f e)"
      using False by (meson same_edge_sym same_edge_trans)
    with False 2 show ?thesis by auto
  qed
qed

lemma fold_put_edge_lookup:
  "edge_lookup (fold (\<lambda>(f, cl) acc. put_edge acc f cl) R acc) e =
     (case edge_lookup (rev R) e of Some cl \<Rightarrow> Some cl | None \<Rightarrow> edge_lookup acc e)"
proof (induction R arbitrary: acc)
  case Nil
  then show ?case by simp
next
  case (Cons x R)
  obtain f cl where x: "x = (f, cl)" by (cases x)
  show ?case
    by (simp add: x Cons.IH edge_lookup_append put_edge_lookup split: option.splits)
qed

lemma incident_mem:
  "((a, b), cl) \<in> set es \<Longrightarrow> (b, cl) \<in> set (incident es a) \<and> (a, cl) \<in> set (incident es b)"
  by (induction es a rule: incident.induct) auto

lemma incident_sound:
  "(nbr, cl) \<in> set (incident es n) \<Longrightarrow> ((n, nbr), cl) \<in> set es \<or> ((nbr, n), cl) \<in> set es"
  by (induction es n rule: incident.induct) (auto split: if_splits)

lemma edges_from_set:
  "set (edges_from seen n inc) = {((n, nbr), cl) | nbr cl. (nbr, cl) \<in> set inc \<and> nbr \<notin> set seen}"
  by (induction seen n inc rule: edges_from.induct) auto

lemma edges_view_sound:
  "(f, cl) \<in> set (edges_view seen ns es) \<Longrightarrow> \<exists>f'. (f', cl) \<in> set es \<and> same_edge f' f"
proof (induction seen ns es rule: edges_view.induct)
  case (1 seen es)
  then show ?case by simp
next
  case (2 seen n ns es)
  from "2.prems" consider
    (here) "(f, cl) \<in> set (edges_from seen n (incident es n))" |
    (later) "(f, cl) \<in> set (edges_view (n # seen) ns es)" by auto
  then show ?case
  proof cases
    case here
    then obtain nbr where "f = (n, nbr)" "(nbr, cl) \<in> set (incident es n)"
      by (auto simp: edges_from_set)
    with incident_sound [of nbr cl es n] show ?thesis
      by (auto simp: same_edge_def)
  next
    case later
    with "2.IH" show ?thesis by blast
  qed
qed

lemma edges_view_complete:
  "((a, b), cl) \<in> set es \<Longrightarrow> a \<in> set ns \<Longrightarrow> b \<in> set ns \<Longrightarrow>
   a \<notin> set seen \<Longrightarrow> b \<notin> set seen \<Longrightarrow>
   \<exists>f. (f, cl) \<in> set (edges_view seen ns es) \<and> same_edge f (a, b)"
proof (induction seen ns es rule: edges_view.induct)
  case (1 seen es)
  then show ?case by simp
next
  case (2 seen n ns es)
  show ?case
  proof (cases "n = a \<or> n = b")
    case True
    then show ?thesis
    proof
      assume "n = a"
      with "2.prems" incident_mem [of a b cl es]
      have "((a, b), cl) \<in> set (edges_from seen n (incident es n))"
        by (auto simp: edges_from_set)
      then show ?thesis using \<open>n = a\<close> by (auto simp: same_edge_def)
    next
      assume "n = b"
      with "2.prems" incident_mem [of a b cl es]
      have "((b, a), cl) \<in> set (edges_from seen n (incident es n))"
        by (auto simp: edges_from_set)
      then have "((b, a), cl) \<in> set (edges_view seen (n # ns) es)" by simp
      moreover have "same_edge (b, a) (a, b)" by (simp add: same_edge_def)
      ultimately show ?thesis by blast
    qed
  next
    case False
    with "2.prems" "2.IH" obtain f where
      "(f, cl) \<in> set (edges_view (n # seen) ns es)" "same_edge f (a, b)" by auto
    then have "(f, cl) \<in> set (edges_view seen (n # ns) es)" "same_edge f (a, b)" by simp_all
    then show ?thesis by blast
  qed
qed

lemma edges_view_lookup:
  assumes u: "unique_edges es"
    and n: "\<forall>((a, b), cl) \<in> set es. a \<in> set ns \<and> b \<in> set ns"
  shows "edge_lookup (rev (edges_view [] ns es)) e = edge_lookup es e"
proof (cases "edge_lookup (rev (edges_view [] ns es)) e")
  case None
  have "edge_lookup es e = None"
    unfolding edge_lookup_None
  proof (clarify)
    fix a b cl assume m: "((a, b), cl) \<in> set es" and s: "same_edge (a, b) e"
    from n m have "a \<in> set ns" "b \<in> set ns" by auto
    with edges_view_complete [OF m, of ns "[]"] obtain f where
      f: "(f, cl) \<in> set (edges_view [] ns es)" "same_edge f (a, b)" by auto
    from f(2) s have "same_edge f e" by (rule same_edge_trans)
    with f(1) None show False by (auto simp: edge_lookup_None)
  qed
  with None show ?thesis by simp
next
  case (Some cl)
  then obtain f where f: "(f, cl) \<in> set (edges_view [] ns es)" "same_edge f e"
    by (auto dest: edge_lookup_Some)
  from edges_view_sound [OF f(1)] obtain f' where
    f': "(f', cl) \<in> set es" "same_edge f' f" by blast
  from f'(2) f(2) have "same_edge f' e" by (rule same_edge_trans)
  with u f'(1) have "edge_lookup es e = Some cl" by (rule edge_lookup_unique)
  with Some show ?thesis by simp
qed

subsection \<open>The edge of a new connection\<close>

text \<open>
  A call of \<open>create_connection\<close> that returns has put the new Connection at the end of the
  connlist of the edge between the two document components, a list of its own when there
  was no edge.
\<close>

lemma get_or_create_document_graph:
  assumes "get_or_create_document ws k = (Inr doc, ws')"
  shows "edges (graph ws') = edges (graph ws) \<and> map_of (nodes (graph ws')) k = Some doc"
proof (cases "map_of (nodes (graph ws)) k")
  case None
  with assms have "create_document ws k = (Inr doc, ws')"
    by (simp add: get_or_create_document_def)
  from create_document_Inr [OF this] show ?thesis
    by (simp add: add_node_def update_conv')
next
  case (Some d)
  with assms show ?thesis by (auto simp: get_or_create_document_def)
qed

lemma ensure_tag_edges: "edges (ensure_tag g k tag) = edges g"
  by (simp add: ensure_tag_def add_node_def split: option.splits)

lemma create_connection_edge:
  assumes c: "create_connection ws s t = (Inr conn, ws')"
  shows "\<exists>u a v b. separate_path s = Inr (u, a) \<and> separate_path t = Inr (v, b) \<and>
           conn = Connection s t [] \<and>
           edge_lookup (edges (graph ws')) (u, v) =
             Some (case edge_lookup (edges (graph ws)) (u, v) of
                     None \<Rightarrow> [conn] | Some cl \<Rightarrow> cl @ [conn])"
proof -
  from c obtain u a where sp: "separate_path s = Inr (u, a)"
    by (cases "separate_path s") (auto simp: create_connection_def)
  from c sp obtain v b where tp: "separate_path t = Inr (v, b)"
    by (cases "separate_path t") (auto simp: create_connection_def)
  obtain r1 s1 where g1: "get_or_create_document ws u = (r1, s1)" by (cases "get_or_create_document ws u")
  from c sp tp g1 obtain d1 where r1: "r1 = Inr d1"
    by (cases r1) (auto simp: create_connection_def)
  obtain r2 s2 where g2: "get_or_create_document s1 v = (r2, s2)" by (cases "get_or_create_document s1 v")
  from c sp tp g1 r1 g2 obtain d2 where r2: "r2 = Inr d2"
    by (cases r2) (auto simp: create_connection_def)
  have e: "edges (graph s2) = edges (graph ws)"
    using get_or_create_document_graph [of ws u d1 s1] get_or_create_document_graph [of s1 v d2 s2]
      g1 g2 r1 r2 by simp
  let ?g2 = "ensure_tag (ensure_tag (graph s2) u a) v b"
  have e2: "edges ?g2 = edges (graph ws)" by (simp add: ensure_tag_edges e)
  from c sp tp g1 r1 g2 r2 have conn: "conn = Connection s t []"
    by (auto simp: create_connection_def Let_def)
  from c sp tp g1 r1 g2 r2 have w: "graph ws' =
      (case edge_lookup (edges ?g2) (u, v) of
         Some cl \<Rightarrow> add_edge ?g2 u v (cl @ [conn])
       | None \<Rightarrow> add_edge ?g2 u v [conn])"
    by (auto simp: create_connection_def Let_def)
  have "edge_lookup (edges (graph ws')) (u, v) =
             Some (case edge_lookup (edges (graph ws)) (u, v) of
                     None \<Rightarrow> [conn] | Some cl \<Rightarrow> cl @ [conn])"
    by (simp add: w e2 add_edge_def put_edge_lookup same_edge_refl split: option.splits)
  with sp tp conn show ?thesis by blast
qed

subsection \<open>Node-link data and back\<close>

lemma as_node_entry:
  "is_str n \<Longrightarrow> is_str (path doc) \<Longrightarrow>
   as_node (PDict [(''document'', doc_val doc), (''id'', key_val n)]) = Some (n, doc)"
  by (cases n; cases doc; cases "path doc") (auto simp: doc_val_def)

lemma as_connlist_conn_val: "as_connlist (map conn_val cl) = Some cl"
  by (induction cl) (auto simp: conn_val_def)

lemma as_link_entry:
  "is_str u \<Longrightarrow> is_str v \<Longrightarrow>
   as_link (PDict [(''connlist'', PList (map conn_val cl)),
                   (''source'', key_val u), (''target'', key_val v)]) = Some ((u, v), cl)"
  by (cases u; cases v) (auto simp: as_connlist_conn_val)

lemma add_nodes_from_entries:
  "\<forall>(n, doc) \<in> set ns. is_str n \<and> is_str (path doc) \<Longrightarrow>
   add_nodes_from g (map (\<lambda>(n, doc). PDict [(''document'', doc_val doc), (''id'', key_val n)]) ns) =
     Inr (g\<lparr>nodes := fold (\<lambda>(n, doc). AList.update n doc) ns (nodes g)\<rparr>)"
proof (induction ns arbitrary: g)
  case Nil
  then show ?case by simp
next
  case (Cons x ns)
  obtain n doc where x: "x = (n, doc)" by (cases x)
  from Cons.prems have s: "is_str n" "is_str (path doc)" by (auto simp: x)
  from Cons.prems have r: "\<forall>(n, doc) \<in> set ns. is_str n \<and> is_str (path doc)" by simp
  show ?case
    by (simp add: x as_node_entry [OF s] Cons.IH [OF r] del: as_node.simps)
       (simp add: add_node_def)
qed

lemma add_edges_from_entries:
  "\<forall>((u, v), cl) \<in> set R. is_str u \<and> is_str v \<and> has_node g u \<and> has_node g v \<Longrightarrow>
   add_edges_from g (map (\<lambda>((u, v), cl). PDict [(''connlist'', PList (map conn_val cl)),
                                               (''source'', key_val u), (''target'', key_val v)]) R) =
     Inr (g\<lparr>edges := fold (\<lambda>(f, cl) acc. put_edge acc f cl) R (edges g)\<rparr>)"
proof (induction R arbitrary: g)
  case Nil
  then show ?case by simp
next
  case (Cons x R)
  obtain u v cl where x: "x = ((u, v), cl)" by (cases x) auto
  from Cons.prems have s: "is_str u" "is_str v" "has_node g u" "has_node g v" by (auto simp: x)
  have h: "\<And>k. has_node (add_edge g u v cl) k = has_node g k"
    by (simp add: has_node_def add_edge_def)
  from Cons.prems have r: "\<forall>((a, b), c) \<in> set R. is_str a \<and> is_str b \<and>
        has_node (add_edge g u v cl) a \<and> has_node (add_edge g u v cl) b"
    by (auto simp: h)
  show ?case
    by (simp add: x as_link_entry s Cons.IH [OF r] del: as_link.simps) (simp add: add_edge_def)
qed


lemma has_node_iff: "has_node g k \<longleftrightarrow> k \<in> fst ` set (nodes g)"
  by (simp add: has_node_def map_of_eq_None_iff)

lemma plain_list_map: "plain_list (map f xs) \<longleftrightarrow> (\<forall>x \<in> set xs. plain (f x))"
  by (induction xs) auto

lemma plain_key_val: "is_str k \<Longrightarrow> plain (key_val k)"
  by (cases k) auto

lemma edges_view_fst:
  "(f, cl) \<in> set (edges_view seen ns es) \<Longrightarrow> fst f \<in> set ns"
  by (induction seen ns es rule: edges_view.induct) (auto simp: edges_from_set)

lemma edges_view_ends:
  assumes m: "((u, v), cl) \<in> set (edges_view seen ns es)"
    and e: "\<forall>((a, b), c) \<in> set es. P a \<and> P b \<and> Q c"
  shows "P u \<and> P v \<and> Q cl"
proof -
  from edges_view_sound [OF m] obtain f' where f': "(f', cl) \<in> set es" "same_edge f' (u, v)"
    by blast
  obtain a b where ab: "f' = (a, b)" by (cases f')
  from e f'(1) have "P a" "P b" "Q cl" by (auto simp: ab)
  with f'(2) show ?thesis by (auto simp: ab same_edge_def)
qed

lemma untagged_entries:
  "\<not> tagged [(''document'', x), (''id'', y)]"
  "\<not> tagged [(''connlist'', x), (''source'', y), (''target'', z)]"
  "\<not> tagged [(''directed'', a), (''multigraph'', b), (''graph'', c), (''nodes'', d),
              (''links'', e)]"
  by (simp_all add: tagged_def)

lemma storable_plain:
  assumes s: "storable g"
  shows "plain (node_link_data g)"
proof -
  have nodes_ok: "\<forall>x \<in> set (nodes g).
      plain ((\<lambda>(n, doc). PDict [(''document'', doc_val doc), (''id'', key_val n)]) x)"
  proof
    fix x assume x: "x \<in> set (nodes g)"
    obtain n doc where nd: "x = (n, doc)" by (cases x)
    from s x have "is_str n" "is_str (path doc)" "plain (PDict (metadata doc))"
      by (auto simp: storable_def nd)
    then show "plain ((\<lambda>(n, doc). PDict [(''document'', doc_val doc), (''id'', key_val n)]) x)"
      by (simp add: nd doc_val_def plain_key_val untagged_entries)
  qed
  have links_ok: "\<forall>x \<in> set (edges_view [] (map fst (nodes g)) (edges g)).
      plain ((\<lambda>((u, v), cl). PDict [(''connlist'', PList (map conn_val cl)),
                                    (''source'', key_val u), (''target'', key_val v)]) x)"
  proof
    fix x assume x: "x \<in> set (edges_view [] (map fst (nodes g)) (edges g))"
    obtain u v cl where uv: "x = ((u, v), cl)" by (cases x) auto
    have "\<forall>((a, b), c) \<in> set (edges g). is_str a \<and> is_str b \<and>
            (\<forall>conn \<in> set c. plain (PDict (conn_metadata conn)))"
      using s by (fastforce simp: storable_def has_node_iff)
    from edges_view_ends [OF x [unfolded uv] this]
    have "is_str u" "is_str v" "\<forall>conn \<in> set cl. plain (PDict (conn_metadata conn))"
      by auto
    then show "plain ((\<lambda>((u, v), cl). PDict [(''connlist'', PList (map conn_val cl)),
                                    (''source'', key_val u), (''target'', key_val v)]) x)"
      by (simp add: uv plain_key_val untagged_entries plain_list_map conn_val_def)
  qed
  from s have "plain (PDict (attrs g))" by (simp add: storable_def)
  with nodes_ok links_ok show ?thesis
    by (simp add: node_link_data_def untagged_entries plain_list_map)
qed

lemma node_link_graph_data:
  assumes s: "storable g"
  shows "\<exists>g'. node_link_graph (node_link_data g) = Inr g' \<and> attrs g' = attrs g \<and>
              nodes g' = nodes g \<and>
              (\<forall>e. edge_lookup (edges g') e = edge_lookup (edges g) e)"
proof -
  let ?R = "edges_view [] (map fst (nodes g)) (edges g)"
  let ?g0 = "\<lparr>attrs = attrs g, nodes = [], edges = []\<rparr>"
  let ?g1 = "\<lparr>attrs = attrs g, nodes = nodes g, edges = []\<rparr>"
  let ?g2 = "\<lparr>attrs = attrs g, nodes = nodes g,
             edges = fold (\<lambda>(f, cl) acc. put_edge acc f cl) ?R []\<rparr>"
  from s have d: "distinct (map fst (nodes g))" by (simp add: storable_def)
  have str: "\<forall>(n, doc) \<in> set (nodes g). is_str n \<and> is_str (path doc)"
    using s by (auto simp: storable_def)
  have n1: "add_nodes_from ?g0
       (map (\<lambda>(n, doc). PDict [(''document'', doc_val doc), (''id'', key_val n)]) (nodes g)) =
       Inr ?g1"
    using add_nodes_from_entries [OF str, of ?g0] fold_update_fresh [OF d] by simp
  have ends: "\<forall>((a, b), c) \<in> set (edges g). (is_str a \<and> has_node ?g1 a) \<and>
                (is_str b \<and> has_node ?g1 b) \<and> True"
    using s by (fastforce simp: storable_def has_node_iff)
  have pre: "\<forall>((u, v), cl) \<in> set ?R. is_str u \<and> is_str v \<and> has_node ?g1 u \<and> has_node ?g1 v"
  proof (clarify)
    fix u v cl assume m: "((u, v), cl) \<in> set ?R"
    from edges_view_ends [OF m ends]
    show "is_str u \<and> is_str v \<and> has_node ?g1 u \<and> has_node ?g1 v" by blast
  qed
  have n2: "add_edges_from ?g1
       (map (\<lambda>((u, v), cl). PDict [(''connlist'', PList (map conn_val cl)),
                                   (''source'', key_val u), (''target'', key_val v)]) ?R) =
       Inr (?g1\<lparr>edges := fold (\<lambda>(f, cl) acc. put_edge acc f cl) ?R (edges ?g1)\<rparr>)"
    by (rule add_edges_from_entries [OF pre])
  have r: "node_link_graph (node_link_data g) = Inr ?g2"
    by (simp add: node_link_graph_def node_link_data_def n1 n2)
  have inn: "\<forall>((a, b), cl) \<in> set (edges g).
               a \<in> set (map fst (nodes g)) \<and> b \<in> set (map fst (nodes g))"
    using s by (fastforce simp: storable_def has_node_iff)
  from s have u: "unique_edges (edges g)" by (simp add: storable_def)
  have l: "\<forall>e. edge_lookup (edges ?g2) e = edge_lookup (edges g) e"
    by (simp add: fold_put_edge_lookup edges_view_lookup [OF u inn] split: option.splits)
  show ?thesis using r l by (intro exI [of _ ?g2]) simp
qed

subsection \<open>Saving and loading\<close>




lemma save_written:
  assumes d: "\<not> is_dir (workspace ws) (save_file ws)"
    and p: "is_dir (workspace ws) (parent_of (save_file ws))"
    and e: "encode (node_link_data (graph ws)) = Inr j"
  shows "\<exists>fs'. save ws = (Inr (), ws\<lparr>workspace := fs'\<rparr>) \<and>
               fs_read fs' (KStr (save_file ws)) = Inr (Json j)"
proof -
  let ?fs = "workspace ws" and ?n = "save_file ws"
  let ?fs1 = "if is_file ?fs ?n then ?fs else ?fs\<lparr>files := AList.update ?n (Text []) (files ?fs)\<rparr>"
  let ?fs2 = "?fs1\<lparr>files := AList.update ?n (Text []) (files ?fs1)\<rparr>"
  let ?fs3 = "?fs2\<lparr>files := AList.update ?n (Json j) (files ?fs2)\<rparr>"
  have dirs1: "dirs ?fs1 = dirs ?fs" by simp
  have s: "save ws = (Inr (), ws\<lparr>workspace := ?fs3\<rparr>)"
    using d p e by (simp add: save_def fs_defs Let_def)
  have r: "fs_read ?fs3 (KStr ?n) = Inr (Json j)"
    using d by (simp add: fs_defs update_conv')
  from s r show ?thesis by blast
qed

text \<open>
  C1, as amended. For a store whose graph is storable (string keys, paths and edge ends,
  plain metadata, edges between nodes) and whose save file can be written, \<open>save\<close> followed
  by \<open>load\<close> succeeds and gives back the same nodes in the same order, each with an equal
  Document, equal workspace metadata, and between every two documents the same edge with
  the same connections in the same order. Objects are values here, so that they are
  freshly allocated is not part of the statement.
\<close>

theorem save_load_roundtrip:
  assumes s: "storable (graph ws)"
    and d: "\<not> is_dir (workspace ws) (save_file ws)"
    and p: "is_dir (workspace ws) (parent_of (save_file ws))"
  shows "fst (save ws) = Inr () \<and> fst (load (snd (save ws))) = Inr () \<and>
         attrs (graph (snd (load (snd (save ws))))) = attrs (graph ws) \<and>
         nodes (graph (snd (load (snd (save ws))))) = nodes (graph ws) \<and>
         (\<forall>u v. edge_lookup (edges (graph (snd (load (snd (save ws)))))) (u, v) =
                edge_lookup (edges (graph ws)) (u, v))"
proof -
  from roundtrip_value(1) [OF storable_plain [OF s]] obtain j where
    j: "encode (node_link_data (graph ws)) = Inr j" "decode j = Inr (node_link_data (graph ws))"
    by blast
  from save_written [OF d p j(1)] obtain fs' where
    sv: "save ws = (Inr (), ws\<lparr>workspace := fs'\<rparr>)" and
    rd: "fs_read fs' (KStr (save_file ws)) = Inr (Json j)" by blast
  from node_link_graph_data [OF s] obtain g' where
    g': "node_link_graph (node_link_data (graph ws)) = Inr g'" "attrs g' = attrs (graph ws)"
        "nodes g' = nodes (graph ws)"
        "\<forall>e. edge_lookup (edges g') e = edge_lookup (edges (graph ws)) e" by blast
  have ld: "load (ws\<lparr>workspace := fs'\<rparr>) = (Inr (), ws\<lparr>workspace := fs', graph := g'\<rparr>)"
    by (simp add: load_def rd loads_def j(2) g'(1))
  show ?thesis by (simp add: sv ld g')
qed

lemmas codec_defs = save_def load_def loads_def node_link_data_def node_link_graph_def
  doc_val_def conn_val_def json_object_hook_def dict_of_def

lemma ws_shape_eq:
  "ws_shape =
     \<lparr>workspace = \<lparr>files = [(''d1'', Text [])], dirs = [], pathlike = False\<rparr>,
      graph = \<lparr>attrs = [],
               nodes = [(KStr ''d1'', Document (KStr ''d1'')
                          [(''k'', PDict [(''document.path'', PStr ''p''),
                                          (''document.metadata'', PDict [])])])],
               edges = []\<rparr>,
      save_file = ''workspace.json''\<rparr>"
  by (simp add: ws_shape_def fs_empty_def store_defs fs_defs Let_def)

text \<open>
  C1 as stated fails. The store \<open>ws_shape\<close> holds one document whose metadata has, under
  \<open>k\<close>, a dict with the keys \<open>document.path\<close> and \<open>document.metadata\<close>. \<open>save\<close> and \<open>load\<close>
  both succeed, and the restored document carries a Document object under \<open>k\<close> where the
  saved one carried the dict: the metadata is not equal.
\<close>

theorem save_load_changes_tagged_dict:
  "fst (save ws_shape) = Inr () \<and>
   fst (load (snd (save ws_shape))) = Inr () \<and>
   get_document ws_shape (KStr ''d1'') =
     Inr (Document (KStr ''d1'')
            [(''k'', PDict [(''document.path'', PStr ''p''), (''document.metadata'', PDict [])])]) \<and>
   get_document (snd (load (snd (save ws_shape)))) (KStr ''d1'') =
     Inr (Document (KStr ''d1'') [(''k'', PDocument (PStr ''p'') [])]) \<and>
   get_document (snd (load (snd (save ws_shape)))) (KStr ''d1'') \<noteq>
     get_document ws_shape (KStr ''d1'')"
  by (simp add: ws_shape_eq codec_defs fs_defs Let_def get_document_def add_node_def)

theorem save_load_roundtrip_witness:
  "storable (graph ws_strings) \<and>
   fst (save ws_strings) = Inr () \<and> fst (load (snd (save ws_strings))) = Inr () \<and>
   nodes (graph (snd (load (snd (save ws_strings))))) =
     [(KStr ''d1'', Document (KStr ''d1'') [(''t'', PStr [])]),
      (KStr ''d2'', Document (KStr ''d2'') [])] \<and>
   attrs (graph (snd (load (snd (save ws_strings))))) = [(''title'', PStr ''notes'')] \<and>
   edge_lookup (edges (graph (snd (load (snd (save ws_strings)))))) (KStr ''d1'', KStr ''d2'') =
     Some [Connection ''d1:t'' ''d2'' [(''w'', PInt 1)], Connection ''d2'' ''d1'' []]"
proof -
  have s: "storable (graph ws_strings)"
    by (simp add: ws_strings_def storable_def tagged_def has_node_def same_edge_def)
  have d: "\<not> is_dir (workspace ws_strings) (save_file ws_strings)"
    by (simp add: ws_strings_def fs_empty_def is_dir_def)
  have p: "is_dir (workspace ws_strings) (parent_of (save_file ws_strings))"
    by (simp add: ws_strings_def fs_empty_def is_dir_def parent_of_def)
  have e: "edge_lookup (edges (graph ws_strings)) (KStr ''d1'', KStr ''d2'') =
     Some [Connection ''d1:t'' ''d2'' [(''w'', PInt 1)], Connection ''d2'' ''d1'' []]"
    by (simp add: ws_strings_def same_edge_def)
  have n: "nodes (graph ws_strings) =
     [(KStr ''d1'', Document (KStr ''d1'') [(''t'', PStr [])]),
      (KStr ''d2'', Document (KStr ''d2'') [])]"
    "attrs (graph ws_strings) = [(''title'', PStr ''notes'')]"
    by (simp_all add: ws_strings_def)
  from save_load_roundtrip [OF s d p] s e n show ?thesis by simp
qed


subsection \<open>Loading\<close>




end
